theory Spec2Isabelle
  imports Main "HOL-Library.AList" "HOL-Library.Sublist" "HOL-Library.Monad_Syntax"
begin

section \<open>Values exchanged with the collaborators\<close>

text \<open>
  Payloads (\<^verbatim>\<open>Record<string, any>\<close>) are JSON values. A JavaScript object is an
  association list in insertion order. Numbers are kept as integers: the code only
  passes them on and tests them for truthiness.
\<close>

datatype json =
    JNull
  | JBool bool
  | JNum int
  | JStr string
  | JArr "json list"
  | JObj "(string \<times> json) list"

text \<open>JavaScript truthiness, as used by \<^verbatim>\<open>||\<close> and \<^verbatim>\<open>if (x)\<close>.\<close>

fun truthy :: "json \<Rightarrow> bool" where
  "truthy JNull = False"
| "truthy (JBool b) = b"
| "truthy (JNum n) = (n \<noteq> 0)"
| "truthy (JStr s) = (s \<noteq> [])"
| "truthy (JArr xs) = True"
| "truthy (JObj kvs) = True"

text \<open>An optional string property is truthy when it is defined and not the empty string.\<close>

definition truthy_str :: "string option \<Rightarrow> bool" where
  "truthy_str s = (case s of None \<Rightarrow> False | Some v \<Rightarrow> v \<noteq> [])"

text \<open>\<^verbatim>\<open>s || d\<close> for an optional string \<^verbatim>\<open>s\<close>.\<close>

definition or_default :: "string option \<Rightarrow> string \<Rightarrow> string" where
  "or_default s d = (case s of None \<Rightarrow> d | Some v \<Rightarrow> if v = [] then d else v)"

text \<open>The decimal rendering of a count inside a template literal.\<close>

fun string_of_nat :: "nat \<Rightarrow> string" where
  "string_of_nat n =
     (if n < 10 then [char_of (48 + n)]
      else string_of_nat (n div 10) @ [char_of (48 + n mod 10)])"

declare string_of_nat.simps [simp del]

text \<open>A promise either rejects with an error message or resolves to a value.\<close>

datatype 'a reply = Rejects string | Resolves 'a

subsection \<open>The request and the message envelope\<close>

text \<open>
  \<^verbatim>\<open>interface ExpoNotificationRequest\<close>. An optional property is \<open>None\<close> when it is
  undefined. \<open>sound\<close> has the declared type \<^verbatim>\<open>'default' | null\<close>: \<open>None\<close> is undefined,
  \<open>Some None\<close> is an explicit null, \<open>Some (Some s)\<close> a string.
\<close>

record ExpoNotificationRequest =
  userId :: "string option"
  userIds :: "string list option"
  topic :: "string option"
  title :: string
  body :: string
  data :: "(string \<times> json) list option"
  priority :: "string option"
  sound :: "string option option"
  badge :: "int option"

text \<open>
  \<^verbatim>\<open>interface ExpoMessage\<close>, as built by \<^verbatim>\<open>sendExpoNotification\<close>. In \<open>msg_sound\<close>,
  \<open>None\<close> is the null that the interface admits; \<open>msg_badge\<close> is \<open>None\<close> when the
  property is not set.
\<close>

record ExpoMessage =
  msg_to :: "string list"
  msg_title :: string
  msg_body :: string
  msg_data :: "(string \<times> json) list"
  msg_sound :: "string option"
  msg_priority :: string
  msg_channelId :: string
  msg_badge :: "int option"

subsection \<open>The provider's reply\<close>

text \<open>
  A push ticket \<^verbatim>\<open>{status, id | message}\<close>. The body of the provider's reply carries an
  optional \<^verbatim>\<open>message\<close> and an optional \<^verbatim>\<open>data\<close>, which is a ticket array or a single
  ticket object.
\<close>

record ticket =
  t_status :: string
  t_id :: "string option"
  t_message :: "string option"

datatype expo_data = DataAbsent | DataArray "ticket list" | DataObject ticket

record expo_body =
  b_message :: "string option"
  b_data :: expo_data

text \<open>
  What \<^verbatim>\<open>fetch\<close> followed by \<^verbatim>\<open>response.json()\<close> yields: either of the two promises
  rejects, or there is a response with its \<^verbatim>\<open>ok\<close> flag and its parsed body.
\<close>

datatype fetch_reply =
    FetchRejects string
  | JsonRejects string
  | Response bool expo_body

text \<open>The object returned by \<^verbatim>\<open>sendExpoNotification\<close>, \<^verbatim>\<open>sendToUser\<close>, \<^verbatim>\<open>sendToAllUsers\<close>.\<close>

record send_result =
  success :: bool
  error :: "string option"
  messageId :: "string option"
  tickets :: expo_data

subsection \<open>The tables and the outside world\<close>

text \<open>A row of \<^verbatim>\<open>fcm_tokens\<close> (the Token Store).\<close>

record token_row =
  user_id :: string
  token :: string
  platform :: string
  device_info :: "(string \<times> json) list"
  is_active :: bool
  last_used_at :: string

text \<open>A row of \<^verbatim>\<open>notification_deliveries\<close> (the Delivery Log).\<close>

record delivery_row =
  d_user_id :: string
  d_notification_type :: json
  d_platform :: string
  d_status :: string
  d_error_message :: "string option"
  d_expo_message_id :: "string option"
  d_timestamp :: string

text \<open>
  Every network call of the dispatch function is recorded, in order: a query of the
  Token Store (with its user filter, if any), a POST to the provider, an insert into the
  Delivery Log.
\<close>

datatype call =
    Select "string option"
  | Post ExpoMessage
  | Insert delivery_row

record world =
  fcm_tokens :: "token_row list"
  notification_deliveries :: "delivery_row list"
  calls :: "call list"

text \<open>
  The backend client resolves a query to a \<^verbatim>\<open>{data, error}\<close> pair: an error, null data
  without an error, or the matching rows.
\<close>

datatype select_reply = SelectError | SelectNull | SelectData

text \<open>
  How the collaborators answer the call issued when \<open>n\<close> calls have been made so far:
  the outcome of a Token Store query, the provider's reply, whether the Delivery Log
  accepts an insert (the code does not look at the outcome), and the clock.
\<close>

record env =
  select_reply :: "nat \<Rightarrow> select_reply"
  fetch_reply :: "nat \<Rightarrow> fetch_reply"
  insert_accepted :: "nat \<Rightarrow> bool"
  clock :: "nat \<Rightarrow> string"

definition issue :: "call \<Rightarrow> world \<Rightarrow> world" where
  "issue c w = w\<lparr>calls := calls w @ [c]\<rparr>"

text \<open>\<^verbatim>\<open>.like('platform', 'expo-%')\<close>: the platform tag starts with \<^verbatim>\<open>expo-\<close>.\<close>

definition like_expo :: "string \<Rightarrow> bool" where
  "like_expo p = (take 5 p = ''expo-'')"

section \<open>The Notification Dispatch Function\<close>

definition failure :: "string \<Rightarrow> send_result" where
  "failure msg = \<lparr>success = False, error = Some msg, messageId = None, tickets = DataAbsent\<rparr>"

text \<open>The object literal of \<^verbatim>\<open>sendExpoNotification\<close> and the conditional badge.\<close>

definition build_message :: "string list \<Rightarrow> ExpoNotificationRequest \<Rightarrow> ExpoMessage" where
  "build_message tokens expoRequest =
     \<lparr>msg_to = tokens,
      msg_title = title expoRequest,
      msg_body = body expoRequest,
      msg_data = (case data expoRequest of None \<Rightarrow> [] | Some d \<Rightarrow> d),
      msg_sound =
        Some (case sound expoRequest of
                Some (Some s) \<Rightarrow> if s = [] then ''default'' else s
              | _ \<Rightarrow> ''default''),
      msg_priority = or_default (priority expoRequest) ''normal'',
      msg_channelId = ''default'',
      msg_badge = badge expoRequest\<rparr>"

definition is_error :: "ticket \<Rightarrow> bool" where
  "is_error t = (t_status t = ''error'')"

definition is_ok :: "ticket \<Rightarrow> bool" where
  "is_ok t = (t_status t = ''ok'')"

text \<open>\<^verbatim>\<open>result.data?.[0]?.id || 'unknown'\<close>.\<close>

definition first_ticket_id :: "expo_data \<Rightarrow> string" where
  "first_ticket_id d =
     (case d of
        DataArray (t # ts) \<Rightarrow> or_default (t_id t) ''unknown''
      | _ \<Rightarrow> ''unknown'')"

text \<open>The interpretation of a response that arrived and parsed.\<close>

definition interpret_response :: "bool \<Rightarrow> expo_body \<Rightarrow> send_result" where
  "interpret_response ok result =
     (if \<not> ok then failure (or_default (b_message result) ''Unknown Expo error'')
      else
        (case b_data result of
           DataArray ts \<Rightarrow>
             (let errors = filter is_error ts in
              if length errors > 0
              then \<lparr>success = list_ex is_ok ts,
                    error = Some (string_of_nat (length errors) @ '' notifications failed''),
                    messageId = None,
                    tickets = DataArray ts\<rparr>
              else \<lparr>success = True, error = None,
                    messageId = Some (first_ticket_id (DataArray ts)),
                    tickets = DataArray ts\<rparr>)
         | d \<Rightarrow> \<lparr>success = True, error = None,
                 messageId = Some (first_ticket_id d),
                 tickets = d\<rparr>))"

definition sendExpoNotification ::
  "env \<Rightarrow> world \<Rightarrow> string list \<Rightarrow> ExpoNotificationRequest \<Rightarrow> send_result \<times> world" where
  "sendExpoNotification e w tokens expoRequest =
     (let message = build_message tokens expoRequest;
          w' = issue (Post message) w
      in case fetch_reply e (length (calls w)) of
           FetchRejects msg \<Rightarrow> (failure msg, w')
         | JsonRejects msg \<Rightarrow> (failure msg, w')
         | Response ok result \<Rightarrow> (interpret_response ok result, w'))"

text \<open>The rows matched by the query of \<^verbatim>\<open>sendToAllUsers\<close>.\<close>

definition broadcast_tokens :: "world \<Rightarrow> token_row list" where
  "broadcast_tokens w = filter (\<lambda>t. like_expo (platform t) \<and> is_active t) (fcm_tokens w)"

definition sendToAllUsers ::
  "env \<Rightarrow> world \<Rightarrow> ExpoNotificationRequest \<Rightarrow> send_result \<times> world" where
  "sendToAllUsers e w expoRequest =
     (let w' = issue (Select None) w in
      case select_reply e (length (calls w)) of
        SelectError \<Rightarrow> (failure ''Failed to fetch tokens'', w')
      | SelectNull \<Rightarrow> (failure ''No active tokens found'', w')
      | SelectData \<Rightarrow>
          (let tokens = broadcast_tokens w in
           if length tokens = 0 then (failure ''No active tokens found'', w')
           else sendExpoNotification e w' (map token tokens) expoRequest))"

text \<open>\<^verbatim>\<open>expoRequest.data?.type || 'unknown'\<close>.\<close>

definition notification_type_of :: "ExpoNotificationRequest \<Rightarrow> json" where
  "notification_type_of expoRequest =
     (case data expoRequest of
        None \<Rightarrow> JStr ''unknown''
      | Some d \<Rightarrow>
          (case map_of d ''type'' of
             None \<Rightarrow> JStr ''unknown''
           | Some v \<Rightarrow> if truthy v then v else JStr ''unknown''))"

text \<open>The row that \<^verbatim>\<open>sendToUser\<close> passes to \<^verbatim>\<open>insert\<close> for one token record.\<close>

definition delivery_record ::
  "string \<Rightarrow> ExpoNotificationRequest \<Rightarrow> send_result \<Rightarrow> token_row \<Rightarrow> string \<Rightarrow> delivery_row" where
  "delivery_record uid expoRequest result tokenRecord timestamp =
     \<lparr>d_user_id = uid,
      d_notification_type = notification_type_of expoRequest,
      d_platform = platform tokenRecord,
      d_status = (if success result then ''sent'' else ''failed''),
      d_error_message = (if success result then None else error result),
      d_expo_message_id = messageId result,
      d_timestamp = timestamp\<rparr>"

text \<open>One insert into the Delivery Log; the reply is not inspected.\<close>

definition insert_delivery ::
  "env \<Rightarrow> string \<Rightarrow> ExpoNotificationRequest \<Rightarrow> send_result \<Rightarrow> token_row \<Rightarrow> world \<Rightarrow> world" where
  "insert_delivery e uid expoRequest result tokenRecord w =
     (let n = length (calls w);
          row = delivery_record uid expoRequest result tokenRecord (clock e n)
      in w\<lparr>calls := calls w @ [Insert row],
           notification_deliveries :=
             (if insert_accepted e n then notification_deliveries w @ [row]
              else notification_deliveries w)\<rparr>)"

text \<open>The loop \<^verbatim>\<open>for (const tokenRecord of tokens)\<close> of \<^verbatim>\<open>sendToUser\<close>.\<close>

fun track_deliveries ::
  "env \<Rightarrow> string \<Rightarrow> ExpoNotificationRequest \<Rightarrow> send_result \<Rightarrow> token_row list \<Rightarrow> world \<Rightarrow> world" where
  "track_deliveries e uid expoRequest result [] w = w"
| "track_deliveries e uid expoRequest result (tokenRecord # rest) w =
     track_deliveries e uid expoRequest result rest
       (insert_delivery e uid expoRequest result tokenRecord w)"

text \<open>The rows matched by the query of \<^verbatim>\<open>sendToUser\<close>.\<close>

definition user_tokens :: "string \<Rightarrow> world \<Rightarrow> token_row list" where
  "user_tokens uid w =
     filter (\<lambda>t. user_id t = uid \<and> like_expo (platform t) \<and> is_active t) (fcm_tokens w)"

definition sendToUser ::
  "env \<Rightarrow> world \<Rightarrow> string \<Rightarrow> ExpoNotificationRequest \<Rightarrow> send_result \<times> world" where
  "sendToUser e w uid expoRequest =
     (let w' = issue (Select (Some uid)) w in
      case select_reply e (length (calls w)) of
        SelectError \<Rightarrow> (failure ''Failed to fetch user tokens'', w')
      | SelectNull \<Rightarrow> (failure ''No active tokens for user'', w')
      | SelectData \<Rightarrow>
          (let tokens = user_tokens uid w in
           if length tokens = 0 then (failure ''No active tokens for user'', w')
           else
             (case sendExpoNotification e w' (map token tokens) expoRequest of
                (result, w'') \<Rightarrow>
                  (result, track_deliveries e uid expoRequest result tokens w''))))"

text \<open>The loop \<^verbatim>\<open>for (const userId of expoRequest.userIds)\<close> of the handler.\<close>

fun sendToUsers ::
  "env \<Rightarrow> world \<Rightarrow> string list \<Rightarrow> ExpoNotificationRequest \<Rightarrow> send_result list \<times> world" where
  "sendToUsers e w [] expoRequest = ([], w)"
| "sendToUsers e w (uid # rest) expoRequest =
     (case sendToUser e w uid expoRequest of
        (result, w') \<Rightarrow>
          (case sendToUsers e w' rest expoRequest of
             (results, w'') \<Rightarrow> (result # results, w'')))"

subsection \<open>The handler\<close>

record http_request =
  http_method :: string
  json_body :: "ExpoNotificationRequest reply"

datatype response_body =
    NullBody
  | ResultBody bool string "send_result list"
  | ErrorBody bool string

record http_response =
  status :: nat
  headers :: "(string \<times> string) list"
  response_body :: response_body

definition corsHeaders :: "(string \<times> string) list" where
  "corsHeaders =
     [(''Access-Control-Allow-Origin'', ''*''),
      (''Access-Control-Allow-Headers'', ''authorization, x-client-info, apikey, content-type'')]"

definition json_headers :: "(string \<times> string) list" where
  "json_headers = corsHeaders @ [(''Content-Type'', ''application/json'')]"

text \<open>
  The recipient dispatch inside the \<^verbatim>\<open>try\<close> block: \<open>Inl\<close> is the thrown error's
  message, \<open>Inr\<close> the \<^verbatim>\<open>results\<close> array.
\<close>

definition no_recipient :: string where
  "no_recipient = ''No valid recipient specified (userId, userIds, or topic)''"

text \<open>The last two branches: a non-empty \<^verbatim>\<open>userIds\<close> list, or the thrown error.\<close>

definition by_userIds ::
  "env \<Rightarrow> world \<Rightarrow> ExpoNotificationRequest \<Rightarrow> (string + send_result list) \<times> world" where
  "by_userIds e w expoRequest =
     (case userIds expoRequest of
        Some uids \<Rightarrow>
          if length uids > 0 then
            (case sendToUsers e w uids expoRequest of (results, w') \<Rightarrow> (Inr results, w'))
          else (Inl no_recipient, w)
      | None \<Rightarrow> (Inl no_recipient, w))"

definition resolve_recipients ::
  "env \<Rightarrow> world \<Rightarrow> ExpoNotificationRequest \<Rightarrow> (string + send_result list) \<times> world" where
  "resolve_recipients e w expoRequest =
     (if truthy_str (topic expoRequest) then
        (case sendToAllUsers e w expoRequest of (result, w') \<Rightarrow> (Inr [result], w'))
      else
        (case userId expoRequest of
           Some uid \<Rightarrow>
             if uid \<noteq> [] then
               (case sendToUser e w uid expoRequest of (result, w') \<Rightarrow> (Inr [result], w'))
             else by_userIds e w expoRequest
         | None \<Rightarrow> by_userIds e w expoRequest))"

definition try_block ::
  "env \<Rightarrow> world \<Rightarrow> http_request \<Rightarrow> (string + send_result list) \<times> world" where
  "try_block e w req =
     (case json_body req of
        Rejects msg \<Rightarrow> (Inl msg, w)
      | Resolves expoRequest \<Rightarrow> resolve_recipients e w expoRequest)"

definition successCount :: "send_result list \<Rightarrow> nat" where
  "successCount results = length (filter success results)"

definition failureCount :: "send_result list \<Rightarrow> nat" where
  "failureCount results = length (filter (\<lambda>r. \<not> success r) results)"

definition summary :: "send_result list \<Rightarrow> string" where
  "summary results =
     ''Sent '' @ string_of_nat (successCount results) @ '' notifications, ''
       @ string_of_nat (failureCount results) @ '' failed''"

definition handler :: "env \<Rightarrow> world \<Rightarrow> http_request \<Rightarrow> http_response \<times> world" where
  "handler e w req =
     (if http_method req = ''OPTIONS''
      then (\<lparr>status = 200, headers = corsHeaders, response_body = NullBody\<rparr>, w)
      else
        (case try_block e w req of
           (Inr results, w') \<Rightarrow>
             (\<lparr>status = 200, headers = json_headers,
               response_body =
                 ResultBody True (summary results) results\<rparr>, w')
         | (Inl msg, w') \<Rightarrow>
             (\<lparr>status = 500, headers = json_headers,
               response_body = ErrorBody False msg\<rparr>, w')))"

text \<open>A POST request carrying a parsed body.\<close>

definition post :: "ExpoNotificationRequest \<Rightarrow> http_request" where
  "post r = \<lparr>http_method = ''POST'', json_body = Resolves r\<rparr>"

text \<open>The condition under which the handler's \<^verbatim>\<open>if\<close> chain reaches a send.\<close>

definition has_recipient :: "ExpoNotificationRequest \<Rightarrow> bool" where
  "has_recipient r =
     (truthy_str (topic r) \<or> truthy_str (userId r)
      \<or> (case userIds r of None \<Rightarrow> False | Some uids \<Rightarrow> length uids > 0))"

subsection \<open>Reading the call log\<close>

text \<open>The user filters of the Token Store queries, and the rows of the inserts, in order.\<close>

fun selects :: "call list \<Rightarrow> string option list" where
  "selects [] = []"
| "selects (Select u # cs) = u # selects cs"
| "selects (c # cs) = selects cs"

fun inserts :: "call list \<Rightarrow> delivery_row list" where
  "inserts [] = []"
| "inserts (Insert d # cs) = d # inserts cs"
| "inserts (c # cs) = inserts cs"

fun is_post :: "call \<Rightarrow> bool" where
  "is_post (Post m) = True"
| "is_post c = False"

text \<open>
  A reply that counts as a successful send: a response with a success status whose body,
  if it carries a ticket array with an error ticket, also carries an ok ticket.
\<close>

definition reply_success :: "fetch_reply \<Rightarrow> bool" where
  "reply_success rep =
     (case rep of
        Response ok result \<Rightarrow>
          ok \<and> (case b_data result of
                  DataArray ts \<Rightarrow> (if list_ex is_error ts then list_ex is_ok ts else True)
                | _ \<Rightarrow> True)
      | _ \<Rightarrow> False)"

text \<open>
  The number of POSTs among the calls \<open>cs\<close>, the first of which is call number \<open>n\<close>,
  whose reply counts as a successful send.
\<close>

definition successful_sends :: "env \<Rightarrow> nat \<Rightarrow> call list \<Rightarrow> nat" where
  "successful_sends e n cs =
     length (filter (\<lambda>(i, c). is_post c \<and> reply_success (fetch_reply e i)) (enumerate n cs))"

text \<open>
  In the words of the specification: the provider's reply contained at least one
  successful ticket.
\<close>

definition has_ok_ticket :: "fetch_reply \<Rightarrow> bool" where
  "has_ok_ticket rep =
     (case rep of
        Response ok result \<Rightarrow>
          (case b_data result of
             DataArray ts \<Rightarrow> list_ex is_ok ts
           | DataObject t \<Rightarrow> is_ok t
           | DataAbsent \<Rightarrow> False)
      | _ \<Rightarrow> False)"

text \<open>
  A reply in the shape the provider documents for a batch: a failure status without
  tickets, or a success status with a non-empty ticket array in which every ticket has
  status ok or error.
\<close>

definition documented_reply :: "fetch_reply \<Rightarrow> bool" where
  "documented_reply rep =
     (case rep of
        Response ok result \<Rightarrow>
          (case b_data result of
             DataArray ts \<Rightarrow> ok \<and> ts \<noteq> [] \<and> list_all (\<lambda>t. is_ok t \<or> is_error t) ts
           | DataObject t \<Rightarrow> False
           | DataAbsent \<Rightarrow> \<not> ok)
      | _ \<Rightarrow> True)"

section \<open>The Realtime Trigger Listener\<close>

text \<open>The inserted row of the \<^verbatim>\<open>notifications\<close> table (\<^verbatim>\<open>payload.new\<close>).\<close>

record notification =
  n_id :: json
  n_type :: string
  n_title :: string
  n_message :: string
  n_data :: "(string \<times> json) list option"

definition pushNotificationTypes :: "string list" where
  "pushNotificationTypes =
     [''like'', ''comment'', ''comment_reply'', ''follow'',
      ''event_like'', ''event_comment'', ''cleaning_reminder'', ''event_reminder'']"

text \<open>Object spread \<^verbatim>\<open>{...obj, ...src}\<close>: a later property replaces an earlier one in place.\<close>

definition spread :: "(string \<times> json) list \<Rightarrow> (string \<times> json) list \<Rightarrow> (string \<times> json) list" where
  "spread obj src = fold (\<lambda>(k, v). AList.update k v) src obj"

text \<open>The \<^verbatim>\<open>body\<close> that the callback passes to \<^verbatim>\<open>supabase.functions.invoke\<close>.\<close>

definition invoke_body :: "string \<Rightarrow> notification \<Rightarrow> (string \<times> json) list" where
  "invoke_body uid n =
     [(''user_id'', JStr uid),
      (''title'', JStr (n_title n)),
      (''body'', JStr (n_message n)),
      (''notification_type'', JStr (n_type n)),
      (''data'', JObj (spread [(''notification_id'', n_id n), (''type'', JStr (n_type n))]
                         (case n_data n of None \<Rightarrow> [] | Some d \<Rightarrow> d)))]"

text \<open>
  The callback registered by \<^verbatim>\<open>setupNotificationListeners\<close> for the user \<open>uid\<close>: the
  function it invokes and the body, or \<open>None\<close> when it invokes nothing.
\<close>

definition on_insert :: "string \<Rightarrow> notification \<Rightarrow> (string \<times> (string \<times> json) list) option" where
  "on_insert uid n =
     (if n_type n \<in> set pushNotificationTypes
      then Some (''send-expo-notification'', invoke_body uid n)
      else None)"

text \<open>\<^verbatim>\<open>if (!user) return;\<close>: without an authenticated user nothing is subscribed.\<close>

definition setupNotificationListeners ::
  "string option \<Rightarrow> notification \<Rightarrow> (string \<times> (string \<times> json) list) option" where
  "setupNotificationListeners user n =
     (case user of None \<Rightarrow> None | Some uid \<Rightarrow> on_insert uid n)"

subsection \<open>Reading a JSON body as a request\<close>

text \<open>
  \<^verbatim>\<open>const expoRequest: ExpoNotificationRequest = await req.json()\<close> reads the
  properties the interface names and no others. Each reader gives \<open>None\<close> when the
  property has a value outside the interface's type: such bodies are not requests.
\<close>

definition str_prop :: "(string \<times> json) list \<Rightarrow> string \<Rightarrow> string option option" where
  "str_prop obj k =
     (case map_of obj k of
        None \<Rightarrow> Some None
      | Some (JStr s) \<Rightarrow> Some (Some s)
      | Some _ \<Rightarrow> None)"

fun strs_of :: "json list \<Rightarrow> string list option" where
  "strs_of [] = Some []"
| "strs_of (JStr s # xs) = map_option ((#) s) (strs_of xs)"
| "strs_of (_ # xs) = None"

definition strs_prop :: "(string \<times> json) list \<Rightarrow> string \<Rightarrow> string list option option" where
  "strs_prop obj k =
     (case map_of obj k of
        None \<Rightarrow> Some None
      | Some (JArr xs) \<Rightarrow> map_option Some (strs_of xs)
      | Some _ \<Rightarrow> None)"

definition obj_prop ::
  "(string \<times> json) list \<Rightarrow> string \<Rightarrow> (string \<times> json) list option option" where
  "obj_prop obj k =
     (case map_of obj k of
        None \<Rightarrow> Some None
      | Some (JObj kvs) \<Rightarrow> Some (Some kvs)
      | Some _ \<Rightarrow> None)"

definition sound_prop :: "(string \<times> json) list \<Rightarrow> string option option option" where
  "sound_prop obj =
     (case map_of obj ''sound'' of
        None \<Rightarrow> Some None
      | Some JNull \<Rightarrow> Some (Some None)
      | Some (JStr s) \<Rightarrow> Some (Some (Some s))
      | Some _ \<Rightarrow> None)"

definition num_prop :: "(string \<times> json) list \<Rightarrow> string \<Rightarrow> int option option" where
  "num_prop obj k =
     (case map_of obj k of
        None \<Rightarrow> Some None
      | Some (JNum i) \<Rightarrow> Some (Some i)
      | Some _ \<Rightarrow> None)"

definition as_request :: "(string \<times> json) list \<Rightarrow> ExpoNotificationRequest option" where
  "as_request obj =
     do {
       uid \<leftarrow> str_prop obj ''userId'';
       uids \<leftarrow> strs_prop obj ''userIds'';
       tp \<leftarrow> str_prop obj ''topic'';
       ti \<leftarrow> Option.bind (str_prop obj ''title'') id;
       bo \<leftarrow> Option.bind (str_prop obj ''body'') id;
       da \<leftarrow> obj_prop obj ''data'';
       pr \<leftarrow> str_prop obj ''priority'';
       so \<leftarrow> sound_prop obj;
       ba \<leftarrow> num_prop obj ''badge'';
       Some \<lparr>userId = uid, userIds = uids, topic = tp, title = ti, body = bo,
             data = da, priority = pr, sound = so, badge = ba\<rparr>
     }"

text \<open>
  An invocation of the function with a JSON body: a POST handled by \<open>handler\<close>.
\<close>

definition invoke ::
  "env \<Rightarrow> world \<Rightarrow> (string \<times> json) list \<Rightarrow> (http_response \<times> world) option" where
  "invoke e w obj =
     map_option (\<lambda>r. handler e w \<lparr>http_method = ''POST'', json_body = Resolves r\<rparr>) (as_request obj)"

section \<open>The Device Registration Service\<close>

text \<open>
  What the device, the push SDK and the backend answer during one session. The state
  is stable: the same question gets the same answer.
\<close>

datatype upsert_reply = UpsertOk | UpsertError | UpsertRejects

record device =
  isDevice :: bool
  getPermissionsAsync :: "string reply"
  requestPermissionsAsync :: "string reply"
  projectId :: "string option"
  getExpoPushTokenAsync :: "string reply"
  getUser :: "string option reply"
  OS :: string
  deviceName :: json
  osVersion :: json
  modelName :: json
  upsert_reply :: upsert_reply
  now :: string

datatype sdk_call =
    GetPermissions
  | RequestPermissions
  | GetExpoPushToken string
  | GetUser
  | Upsert token_row
  | AddNotificationReceivedListener
  | AddNotificationResponseReceivedListener

text \<open>
  The two private fields of \<^verbatim>\<open>ExpoNotificationService\<close>, the Token Store it writes
  to, and the calls it has made.
\<close>

record client =
  isInitialized :: bool
  expoPushToken :: "string option"
  token_store :: "token_row list"
  sdk_calls :: "sdk_call list"

definition called :: "sdk_call \<Rightarrow> client \<Rightarrow> client" where
  "called c s = s\<lparr>sdk_calls := sdk_calls s @ [c]\<rparr>"

definition requestPermissions :: "device \<Rightarrow> client \<Rightarrow> bool \<times> client" where
  "requestPermissions d s =
     (let s1 = called GetPermissions s in
      case getPermissionsAsync d of
        Rejects msg \<Rightarrow> (False, s1)
      | Resolves existingStatus \<Rightarrow>
          if existingStatus \<noteq> ''granted'' then
            (let s2 = called RequestPermissions s1 in
             case requestPermissionsAsync d of
               Rejects msg \<Rightarrow> (False, s2)
             | Resolves finalStatus \<Rightarrow> (finalStatus = ''granted'', s2))
          else (True, s1))"

definition getExpoPushToken :: "device \<Rightarrow> client \<Rightarrow> string option \<times> client" where
  "getExpoPushToken d s =
     (case projectId d of
        None \<Rightarrow> (None, s)
      | Some p \<Rightarrow>
          if p = [] then (None, s)
          else
            (let s1 = called (GetExpoPushToken p) s in
             case getExpoPushTokenAsync d of
               Rejects msg \<Rightarrow> (None, s1)
             | Resolves t \<Rightarrow> (Some t, s1)))"

text \<open>The conflict target \<^verbatim>\<open>'user_id,platform,token'\<close>.\<close>

definition row_key :: "token_row \<Rightarrow> string \<times> string \<times> string" where
  "row_key r = (user_id r, platform r, token r)"

text \<open>
  The store's upsert: a row with the same key is replaced where it stands, otherwise
  the row is added.
\<close>

fun upsert :: "token_row \<Rightarrow> token_row list \<Rightarrow> token_row list" where
  "upsert r [] = [r]"
| "upsert r (x # xs) = (if row_key x = row_key r then r # xs else x # upsert r xs)"

definition saveTokenToDatabase :: "device \<Rightarrow> string \<Rightarrow> string \<Rightarrow> client \<Rightarrow> bool \<times> client" where
  "saveTokenToDatabase d tok uid s =
     (let deviceInfo =
            [(''platform'', JStr (OS d)),
             (''deviceName'', deviceName d),
             (''osVersion'', osVersion d),
             (''modelName'', modelName d),
             (''timestamp'', JStr (now d))];
          row = \<lparr>user_id = uid, token = tok, platform = ''expo-'' @ OS d,
                 device_info = deviceInfo, is_active = True, last_used_at = now d\<rparr>;
          s1 = called (Upsert row) s
      in case upsert_reply d of
           UpsertOk \<Rightarrow> (True, s1\<lparr>token_store := upsert row (token_store s1)\<rparr>)
         | UpsertError \<Rightarrow> (False, s1)
         | UpsertRejects \<Rightarrow> (False, s1))"

definition setupListeners :: "client \<Rightarrow> client" where
  "setupListeners s =
     called AddNotificationResponseReceivedListener (called AddNotificationReceivedListener s)"

text \<open>
  The part of \<^verbatim>\<open>initialize\<close> after the token has been stored in the two fields: the
  lookup of the signed-in user may reject, which the \<^verbatim>\<open>catch\<close> turns into \<open>False\<close>.
\<close>

definition register_token :: "device \<Rightarrow> string \<Rightarrow> client \<Rightarrow> bool \<times> client" where
  "register_token d tok s =
     (let s1 = called GetUser s in
      case getUser d of
        Rejects msg \<Rightarrow> (False, s1)
      | Resolves None \<Rightarrow> (True, setupListeners s1)
      | Resolves (Some uid) \<Rightarrow>
          (case saveTokenToDatabase d tok uid s1 of
             (saved, s2) \<Rightarrow> (True, setupListeners s2)))"

definition initialize :: "device \<Rightarrow> client \<Rightarrow> bool \<times> client" where
  "initialize d s =
     (if isInitialized s then (True, s)
      else if \<not> isDevice d then (False, s)
      else
        (case requestPermissions d s of
           (hasPermission, s1) \<Rightarrow>
             if \<not> hasPermission then (False, s1)
             else
               (case getExpoPushToken d s1 of
                  (None, s2) \<Rightarrow> (False, s2)
                | (Some t, s2) \<Rightarrow>
                    if t = [] then (False, s2)
                    else
                      register_token d t
                        (s2\<lparr>expoPushToken := Some t, isInitialized := True\<rparr>))))"

definition getToken :: "client \<Rightarrow> string option" where
  "getToken s = expoPushToken s"

section \<open>Concrete scenarios\<close>

text \<open>
  One user with one active token on the push SDK's platform family, an empty Delivery
  Log, and collaborators that answer every call successfully.
\<close>

definition ex_token :: token_row where
  "ex_token = \<lparr>user_id = ''u1'', token = ''ExponentPushToken[a]'', platform = ''expo-ios'',
               device_info = [], is_active = True, last_used_at = ''2024-01-01T00:00:00.000Z''\<rparr>"

definition ex_world :: world where
  "ex_world = \<lparr>fcm_tokens = [ex_token], notification_deliveries = [], calls = []\<rparr>"

definition ok_ticket :: ticket where
  "ok_ticket = \<lparr>t_status = ''ok'', t_id = Some ''m1'', t_message = None\<rparr>"

definition error_ticket :: ticket where
  "error_ticket = \<lparr>t_status = ''error'', t_id = None, t_message = Some ''DeviceNotRegistered''\<rparr>"

definition ex_replies :: "fetch_reply \<Rightarrow> env" where
  "ex_replies rep = \<lparr>select_reply = (\<lambda>n. SelectData),
                     fetch_reply = (\<lambda>n. rep),
                     insert_accepted = (\<lambda>n. True),
                     clock = (\<lambda>n. ''2024-01-02T00:00:00.000Z'')\<rparr>"

definition ex_env :: env where
  "ex_env = ex_replies (Response True \<lparr>b_message = None, b_data = DataArray [ok_ticket]\<rparr>)"

text \<open>A request with no recipient property, an explicit null sound and no priority.\<close>

definition ex_request :: ExpoNotificationRequest where
  "ex_request = \<lparr>userId = None, userIds = None, topic = None, title = ''T'', body = ''B'',
                 data = None, priority = None, sound = Some None, badge = None\<rparr>"

text \<open>A reply with one delivered and one rejected token, and a reply with a failure status.\<close>

definition mixed_body :: expo_body where
  "mixed_body = \<lparr>b_message = None, b_data = DataArray [ok_ticket, error_ticket]\<rparr>"

definition down_body :: expo_body where
  "down_body = \<lparr>b_message = Some ''Service Unavailable'', b_data = DataAbsent\<rparr>"

text \<open>Requests with an empty topic, a topic, a topic and a user, an unknown user, two user shapes.\<close>

definition empty_topic_request :: ExpoNotificationRequest where
  "empty_topic_request = ex_request\<lparr>topic := Some []\<rparr>"

definition topic_request :: ExpoNotificationRequest where
  "topic_request = ex_request\<lparr>topic := Some ''news''\<rparr>"

definition two_shapes_request :: ExpoNotificationRequest where
  "two_shapes_request = ex_request\<lparr>topic := Some ''news'', userId := Some ''u2''\<rparr>"

definition stranger_request :: ExpoNotificationRequest where
  "stranger_request = ex_request\<lparr>userId := Some ''u2''\<rparr>"

definition either_user_request :: ExpoNotificationRequest where
  "either_user_request = ex_request\<lparr>userId := Some ''u1'', userIds := Some [''u2'']\<rparr>"

definition empty_world :: world where
  "empty_world = \<lparr>fcm_tokens = [], notification_deliveries = [], calls = []\<rparr>"

definition options_request :: http_request where
  "options_request =
     \<lparr>http_method = ''OPTIONS'', json_body = Rejects ''Unexpected end of JSON input''\<rparr>"

text \<open>
  An inserted in-app notification of an allow-listed type, and one of another type.
\<close>

definition like_notification :: notification where
  "like_notification = \<lparr>n_id = JStr ''n1'', n_type = ''like'', n_title = ''New like'',
                         n_message = ''Someone liked your post'', n_data = None\<rparr>"

definition test_notification :: notification where
  "test_notification = like_notification\<lparr>n_type := ''test''\<rparr>"

text \<open>
  A physical device with permission already granted and a signed-in user; the same
  device with permission denied; a client that has not been initialized; and the client
  after a successful initialization on the first device.
\<close>

definition ex_device :: device where
  "ex_device = \<lparr>isDevice = True,
                getPermissionsAsync = Resolves ''granted'',
                requestPermissionsAsync = Resolves ''granted'',
                projectId = Some ''project-1'',
                getExpoPushTokenAsync = Resolves ''ExponentPushToken[a]'',
                getUser = Resolves (Some ''u1''),
                OS = ''ios'',
                deviceName = JStr ''Phone'',
                osVersion = JStr ''17.0'',
                modelName = JStr ''Model'',
                upsert_reply = UpsertOk,
                now = ''2024-01-02T00:00:00.000Z''\<rparr>"

definition denied_device :: device where
  "denied_device = ex_device\<lparr>getPermissionsAsync := Resolves ''undetermined'',
                             requestPermissionsAsync := Resolves ''denied''\<rparr>"

definition fresh_client :: client where
  "fresh_client = \<lparr>isInitialized = False, expoPushToken = None, token_store = [], sdk_calls = []\<rparr>"

definition registered_row :: token_row where
  "registered_row =
     \<lparr>user_id = ''u1'', token = ''ExponentPushToken[a]'', platform = ''expo-ios'',
      device_info =
        [(''platform'', JStr ''ios''), (''deviceName'', JStr ''Phone''),
         (''osVersion'', JStr ''17.0''), (''modelName'', JStr ''Model''),
         (''timestamp'', JStr ''2024-01-02T00:00:00.000Z'')],
      is_active = True, last_used_at = ''2024-01-02T00:00:00.000Z''\<rparr>"

definition registered_client :: client where
  "registered_client =
     \<lparr>isInitialized = True, expoPushToken = Some ''ExponentPushToken[a]'',
      token_store = [registered_row],
      sdk_calls = [GetPermissions, GetExpoPushToken ''project-1'', GetUser, Upsert registered_row,
                   AddNotificationReceivedListener, AddNotificationResponseReceivedListener]\<rparr>"

text \<open>
  Requests for a list of users; a reply that carries a single rejected ticket outside an
  array; the outcome of a successful send to the one registered user; and a Token Store
  whose first query fails.
\<close>

definition list_request :: ExpoNotificationRequest where
  "list_request = ex_request\<lparr>userIds := Some [''u1'']\<rparr>"

definition single_error_reply :: fetch_reply where
  "single_error_reply = Response True \<lparr>b_message = None, b_data = DataObject error_ticket\<rparr>"

definition user_request :: ExpoNotificationRequest where
  "user_request = ex_request\<lparr>userId := Some ''u1''\<rparr>"

definition sent_result :: send_result where
  "sent_result = \<lparr>success = True, error = None, messageId = Some ''m1'',
                  tickets = DataArray [ok_ticket]\<rparr>"

definition sent_row :: delivery_row where
  "sent_row = \<lparr>d_user_id = ''u1'', d_notification_type = JStr ''unknown'',
               d_platform = ''expo-ios'', d_status = ''sent'', d_error_message = None,
               d_expo_message_id = Some ''m1'', d_timestamp = ''2024-01-02T00:00:00.000Z''\<rparr>"

definition sent_world :: world where
  "sent_world =
     \<lparr>fcm_tokens = [ex_token], notification_deliveries = [sent_row],
      calls = [Select (Some ''u1''), Post (build_message [''ExponentPushToken[a]''] user_request),
               Insert sent_row]\<rparr>"

definition two_users_request :: ExpoNotificationRequest where
  "two_users_request = ex_request\<lparr>userIds := Some [''u2'', ''u1'']\<rparr>"

definition flaky_env :: env where
  "flaky_env = ex_env\<lparr>select_reply := (\<lambda>n. if n = 0 then SelectError else SelectData)\<rparr>"

section \<open>Properties\<close>

lemma success_failure [simp]: "success (failure msg) = False"
  by (simp add: failure_def)

lemma string_of_nat_digits:
  "string_of_nat 0 = ''0''" "string_of_nat (Suc 0) = ''1''" "string_of_nat 2 = ''2''"
  by code_simp+

text \<open>
  C1. A request in which none of \<^verbatim>\<open>userId\<close>, \<^verbatim>\<open>userIds\<close> and \<^verbatim>\<open>topic\<close> is present is answered
  with the validation failure (status 500, the "no valid recipient" error), and the world
  is returned as it was: no Token Store query, no provider POST, no Delivery Log insert.
  (An \<^verbatim>\<open>OPTIONS\<close> preflight carries no request and is answered before the body is read.)
\<close>

theorem missing_recipient_rejected:
  assumes "http_method req \<noteq> ''OPTIONS''" and "json_body req = Resolves r"
    and "userId r = None" and "userIds r = None" and "topic r = None"
  shows "handler e w req =
           (\<lparr>status = 500, headers = json_headers, response_body = ErrorBody False no_recipient\<rparr>, w)"
  using assms
  by (simp add: handler_def try_block_def resolve_recipients_def by_userIds_def truthy_str_def)

theorem missing_recipient_rejected_witness:
  "http_method (post ex_request) \<noteq> ''OPTIONS'' \<and> json_body (post ex_request) = Resolves ex_request
   \<and> userId ex_request = None \<and> userIds ex_request = None \<and> topic ex_request = None
   \<and> handler ex_env ex_world (post ex_request) =
        (\<lparr>status = 500, headers = json_headers, response_body = ErrorBody False no_recipient\<rparr>,
         ex_world)"
  using missing_recipient_rejected [of "post ex_request" ex_request ex_env ex_world]
  by (simp add: post_def ex_request_def)

text \<open>
  C3. For a batch sent to the provider: unless the reply is a response with a success
  status, the batch result is a failure; and when a success status comes with a ticket
  array that holds at least one error ticket, the batch result is a success exactly when
  some ticket has status ok, and its error field reports the number of error tickets.
\<close>

theorem provider_reply_interpreted:
  assumes "sendExpoNotification e w toks r = (res, w')"
  shows "((\<forall>result. fetch_reply e (length (calls w)) \<noteq> Response True result) \<longrightarrow> \<not> success res)
    \<and> (fetch_reply e (length (calls w)) = Response True result \<and> b_data result = DataArray ts
         \<and> (\<exists>t \<in> set ts. is_error t) \<longrightarrow>
           success res = (\<exists>t \<in> set ts. is_ok t)
           \<and> error res = Some (string_of_nat (length (filter is_error ts)) @ '' notifications failed''))"
proof (intro conjI impI)
  assume "\<forall>result. fetch_reply e (length (calls w)) \<noteq> Response True result"
  with assms show "\<not> success res"
    by (cases "fetch_reply e (length (calls w))")
       (auto simp: sendExpoNotification_def interpret_response_def Let_def)
next
  assume h: "fetch_reply e (length (calls w)) = Response True result \<and> b_data result = DataArray ts
         \<and> (\<exists>t \<in> set ts. is_error t)"
  then have ne: "filter is_error ts \<noteq> []"
    by (auto simp: filter_empty_conv)
  from h assms have res: "res = interpret_response True result"
    by (simp add: sendExpoNotification_def Let_def)
  from res h ne show "success res = (\<exists>t \<in> set ts. is_ok t)"
    by (simp add: interpret_response_def Let_def list_ex_iff)
  from res h ne show "error res = Some (string_of_nat (length (filter is_error ts)) @ '' notifications failed'')"
    by (simp add: interpret_response_def Let_def)
qed

theorem provider_reply_interpreted_witness:
  "fetch_reply (ex_replies (Response True mixed_body)) (length (calls ex_world)) = Response True mixed_body
   \<and> b_data mixed_body = DataArray [ok_ticket, error_ticket]
   \<and> list_ex is_error [ok_ticket, error_ticket]
   \<and> success (fst (sendExpoNotification (ex_replies (Response True mixed_body)) ex_world
                      [''ExponentPushToken[a]'', ''ExponentPushToken[b]''] ex_request)) = True
   \<and> error (fst (sendExpoNotification (ex_replies (Response True mixed_body)) ex_world
                    [''ExponentPushToken[a]'', ''ExponentPushToken[b]''] ex_request))
       = Some ''1 notifications failed''
   \<and> fetch_reply (ex_replies (Response False down_body)) (length (calls ex_world)) = Response False down_body
   \<and> success (fst (sendExpoNotification (ex_replies (Response False down_body)) ex_world
                      [''ExponentPushToken[a]'', ''ExponentPushToken[b]''] ex_request)) = False"
  using
    provider_reply_interpreted [of "ex_replies (Response True mixed_body)" ex_world
      "[''ExponentPushToken[a]'', ''ExponentPushToken[b]'']" ex_request
      "fst (sendExpoNotification (ex_replies (Response True mixed_body)) ex_world
              [''ExponentPushToken[a]'', ''ExponentPushToken[b]''] ex_request)"
      "snd (sendExpoNotification (ex_replies (Response True mixed_body)) ex_world
              [''ExponentPushToken[a]'', ''ExponentPushToken[b]''] ex_request)"
      mixed_body "[ok_ticket, error_ticket]"]
    provider_reply_interpreted [of "ex_replies (Response False down_body)" ex_world
      "[''ExponentPushToken[a]'', ''ExponentPushToken[b]'']" ex_request
      "fst (sendExpoNotification (ex_replies (Response False down_body)) ex_world
              [''ExponentPushToken[a]'', ''ExponentPushToken[b]''] ex_request)"
      "snd (sendExpoNotification (ex_replies (Response False down_body)) ex_world
              [''ExponentPushToken[a]'', ''ExponentPushToken[b]''] ex_request)"]
  by (simp add: ex_replies_def mixed_body_def is_error_def is_ok_def ok_ticket_def
      error_ticket_def string_of_nat_digits)

text \<open>
  C10. The envelope posted to the provider is the one built from the request. When the
  request sets \<^verbatim>\<open>sound\<close> to an explicit null the envelope's sound is \<^verbatim>\<open>'default'\<close>, not
  null; without a priority the envelope's priority is \<^verbatim>\<open>'normal'\<close>; and the channel tag is
  always \<^verbatim>\<open>'default'\<close>.
\<close>

theorem envelope_defaults:
  "calls (snd (sendExpoNotification e w toks r)) = calls w @ [Post (build_message toks r)]
   \<and> (sound r = Some None \<longrightarrow> msg_sound (build_message toks r) = Some ''default'')
   \<and> (priority r = None \<longrightarrow> msg_priority (build_message toks r) = ''normal'')
   \<and> msg_channelId (build_message toks r) = ''default''"
  by (simp add: sendExpoNotification_def issue_def build_message_def or_default_def Let_def
      split: fetch_reply.split)

theorem envelope_defaults_witness:
  "sound ex_request = Some None \<and> priority ex_request = None
   \<and> msg_sound (build_message [''ExponentPushToken[a]''] ex_request) = Some ''default''
   \<and> msg_priority (build_message [''ExponentPushToken[a]''] ex_request) = ''normal''
   \<and> msg_channelId (build_message [''ExponentPushToken[a]''] ex_request) = ''default''"
  using envelope_defaults [of ex_env ex_world "[''ExponentPushToken[a]'']" ex_request]
  by (simp add: ex_request_def)

lemma length_sendToUsers: "length (fst (sendToUsers e w uids r)) = length uids"
  by (induction uids arbitrary: w) (simp_all add: case_prod_beta)

lemma build_message_recipient_free:
  "build_message toks (r\<lparr>userId := a\<rparr>) = build_message toks r"
  "build_message toks (r\<lparr>userIds := b\<rparr>) = build_message toks r"
  "build_message toks (r\<lparr>topic := c\<rparr>) = build_message toks r"
  by (simp_all add: build_message_def)

lemma sendExpoNotification_recipient_free:
  "sendExpoNotification e w toks (r\<lparr>userId := a\<rparr>) = sendExpoNotification e w toks r"
  "sendExpoNotification e w toks (r\<lparr>userIds := b\<rparr>) = sendExpoNotification e w toks r"
  "sendExpoNotification e w toks (r\<lparr>topic := c\<rparr>) = sendExpoNotification e w toks r"
  by (simp_all add: sendExpoNotification_def build_message_recipient_free)

lemma sendToAllUsers_recipient_free:
  "sendToAllUsers e w (r\<lparr>userId := a\<rparr>) = sendToAllUsers e w r"
  "sendToAllUsers e w (r\<lparr>userIds := b\<rparr>) = sendToAllUsers e w r"
  "sendToAllUsers e w (r\<lparr>topic := c\<rparr>) = sendToAllUsers e w r"
  by (simp_all add: sendToAllUsers_def sendExpoNotification_recipient_free Let_def
      split: select_reply.split)

lemma insert_delivery_userIds_free:
  "insert_delivery e uid (r\<lparr>userIds := b\<rparr>) res t w = insert_delivery e uid r res t w"
  by (simp add: insert_delivery_def delivery_record_def notification_type_of_def)

lemma track_deliveries_userIds_free:
  "track_deliveries e uid (r\<lparr>userIds := b\<rparr>) res ts w = track_deliveries e uid r res ts w"
  by (induction ts arbitrary: w) (simp_all add: insert_delivery_userIds_free)

lemma sendToUser_userIds_free:
  "sendToUser e w uid (r\<lparr>userIds := b\<rparr>) = sendToUser e w uid r"
  by (simp add: sendToUser_def sendExpoNotification_recipient_free track_deliveries_userIds_free
      Let_def split: select_reply.split)

text \<open>
  C2, as stated, fails: a request whose topic is present but is the empty string does not
  take the broadcast path. With no other recipient it is rejected with the validation
  failure and the Token Store is not queried, although an active token is registered.
\<close>

theorem empty_topic_rejected:
  "topic empty_topic_request = Some []
   \<and> handler ex_env ex_world (post empty_topic_request) =
       (\<lparr>status = 500, headers = json_headers, response_body = ErrorBody False no_recipient\<rparr>,
        ex_world)"
  by (simp add: empty_topic_request_def ex_request_def post_def handler_def try_block_def
      resolve_recipients_def by_userIds_def truthy_str_def)

text \<open>
  C2, amended. For every request with a non-empty topic whose Token Store query succeeds:
  the rows resolved are exactly the rows of the store with the active flag set and a
  platform tag starting with \<^verbatim>\<open>expo-\<close>; when there is such a row the function issues the
  one query (without a user filter) and one POST addressed to the tokens of exactly these
  rows; when there is none the result is the failure "No active tokens found" and the
  query is the only call; and any other non-empty topic value gives the same outcome.
\<close>

theorem topic_broadcast:
  assumes "truthy_str (topic r)"
    and "select_reply e (length (calls w)) = SelectData"
    and "resolve_recipients e w r = (out, w')"
  shows "set (broadcast_tokens w) = {t \<in> set (fcm_tokens w). is_active t \<and> like_expo (platform t)}
    \<and> (broadcast_tokens w \<noteq> [] \<longrightarrow>
          calls w' = calls w @ [Select None, Post (build_message (map token (broadcast_tokens w)) r)])
    \<and> (broadcast_tokens w = [] \<longrightarrow>
          out = Inr [failure ''No active tokens found''] \<and> calls w' = calls w @ [Select None])
    \<and> (\<forall>t. t \<noteq> [] \<longrightarrow> resolve_recipients e w (r\<lparr>topic := Some t\<rparr>) = (out, w'))"
proof (intro conjI impI allI)
  show "set (broadcast_tokens w) = {t \<in> set (fcm_tokens w). is_active t \<and> like_expo (platform t)}"
    by (auto simp: broadcast_tokens_def)
next
  assume "broadcast_tokens w \<noteq> []"
  with assms have "w' = snd (sendExpoNotification e (issue (Select None) w)
                               (map token (broadcast_tokens w)) r)"
    by (auto simp: resolve_recipients_def sendToAllUsers_def Let_def split: prod.splits)
  then show "calls w' = calls w @ [Select None, Post (build_message (map token (broadcast_tokens w)) r)]"
    by (simp add: sendExpoNotification_def issue_def Let_def split: fetch_reply.split)
next
  assume "broadcast_tokens w = []"
  with assms show "out = Inr [failure ''No active tokens found'']"
    and "calls w' = calls w @ [Select None]"
    by (auto simp: resolve_recipients_def sendToAllUsers_def Let_def issue_def)
next
  fix t :: string
  assume "t \<noteq> []"
  with assms show "resolve_recipients e w (r\<lparr>topic := Some t\<rparr>) = (out, w')"
    by (simp add: resolve_recipients_def sendToAllUsers_recipient_free truthy_str_def)
qed

theorem topic_broadcast_witness:
  "truthy_str (topic topic_request)
   \<and> select_reply ex_env (length (calls ex_world)) = SelectData
   \<and> broadcast_tokens ex_world = [ex_token]
   \<and> calls (snd (resolve_recipients ex_env ex_world topic_request)) =
       [Select None, Post (build_message [''ExponentPushToken[a]''] topic_request)]
   \<and> broadcast_tokens empty_world = []
   \<and> fst (resolve_recipients ex_env empty_world topic_request) =
       Inr [failure ''No active tokens found'']
   \<and> calls (snd (resolve_recipients ex_env empty_world topic_request)) = [Select None]"
proof -
  have a: "truthy_str (topic topic_request)"
    by (simp add: topic_request_def truthy_str_def)
  have b: "select_reply ex_env n = SelectData" for n
    by (simp add: ex_env_def ex_replies_def)
  have c: "broadcast_tokens ex_world = [ex_token]"
    by (simp add: broadcast_tokens_def ex_world_def ex_token_def like_expo_def)
  have d: "broadcast_tokens empty_world = []"
    by (simp add: broadcast_tokens_def empty_world_def)
  have full: "calls (snd (resolve_recipients ex_env ex_world topic_request)) =
       [Select None, Post (build_message [''ExponentPushToken[a]''] topic_request)]"
    using topic_broadcast [OF a b prod.collapse [symmetric], THEN conjunct2, THEN conjunct1,
        of ex_world] c
    by (simp add: ex_world_def ex_token_def)
  have none: "fst (resolve_recipients ex_env empty_world topic_request) =
       Inr [failure ''No active tokens found'']
     \<and> calls (snd (resolve_recipients ex_env empty_world topic_request)) = [Select None]"
    using topic_broadcast [OF a b prod.collapse [symmetric], THEN conjunct2, THEN conjunct2,
        THEN conjunct1, of empty_world] d
    by (simp add: empty_world_def)
  from a b c d full none show ?thesis by simp
qed

text \<open>
  C8, as stated, fails: a single-user request for a user without an active token is
  answered with status 200 and \<^verbatim>\<open>success: true\<close> although no send succeeded
  (zero sent, one failed).
\<close>

theorem all_failed_still_200:
  "handler ex_env ex_world (post stranger_request) =
     (\<lparr>status = 200, headers = json_headers,
       response_body = ResultBody True ''Sent 0 notifications, 1 failed''
                         [failure ''No active tokens for user'']\<rparr>,
      ex_world\<lparr>calls := [Select (Some ''u2'')]\<rparr>)"
  by (simp add: stranger_request_def ex_request_def post_def handler_def try_block_def
      resolve_recipients_def truthy_str_def sendToUser_def user_tokens_def
      ex_world_def ex_token_def like_expo_def issue_def ex_env_def ex_replies_def
      summary_def successCount_def failureCount_def
      string_of_nat_digits Let_def)

text \<open>
  C8, amended. The handler always returns a response. A preflight gets status 200 with an
  empty body. Any other request whose body parses and names a recipient (a non-empty
  topic, a non-empty user id or a non-empty list of user ids) gets status 200 with
  \<^verbatim>\<open>{ success: true, message, results }\<close> and at least one result, whatever the outcomes
  of the sends, including when every one failed. Every remaining request gets status 500
  with \<^verbatim>\<open>{ success: false, error }\<close>, and nothing has been called.
\<close>

theorem handler_responses:
  "(http_method req = ''OPTIONS'' \<longrightarrow>
      handler e w req = (\<lparr>status = 200, headers = corsHeaders, response_body = NullBody\<rparr>, w))
   \<and> (http_method req \<noteq> ''OPTIONS'' \<and> (\<exists>r. json_body req = Resolves r \<and> has_recipient r) \<longrightarrow>
        (\<exists>results. results \<noteq> []
           \<and> fst (handler e w req) =
               \<lparr>status = 200, headers = json_headers,
                response_body = ResultBody True (summary results) results\<rparr>))
   \<and> (http_method req \<noteq> ''OPTIONS'' \<and> \<not> (\<exists>r. json_body req = Resolves r \<and> has_recipient r) \<longrightarrow>
        (\<exists>msg. handler e w req =
           (\<lparr>status = 500, headers = json_headers, response_body = ErrorBody False msg\<rparr>, w)))"
proof (intro conjI impI)
  assume "http_method req = ''OPTIONS''"
  then show "handler e w req = (\<lparr>status = 200, headers = corsHeaders, response_body = NullBody\<rparr>, w)"
    by (simp add: handler_def)
next
  assume h: "http_method req \<noteq> ''OPTIONS'' \<and> (\<exists>r. json_body req = Resolves r \<and> has_recipient r)"
  then obtain r where r: "json_body req = Resolves r" "has_recipient r" by blast
  have "\<exists>results w'. resolve_recipients e w r = (Inr results, w') \<and> results \<noteq> []"
  proof (cases "truthy_str (topic r)")
    case True
    then show ?thesis by (auto simp: resolve_recipients_def split: prod.splits)
  next
    case False
    show ?thesis
    proof (cases "truthy_str (userId r)")
      case True
      with False show ?thesis
        by (auto simp: resolve_recipients_def truthy_str_def split: prod.splits option.splits)
    next
      case no_uid: False
      with False r obtain uids where u: "userIds r = Some uids" "uids \<noteq> []"
        by (auto simp: has_recipient_def split: option.splits)
      have "fst (sendToUsers e w uids r) \<noteq> []"
        using length_sendToUsers [of e w uids r] u by auto
      with False no_uid u show ?thesis
        by (auto simp: resolve_recipients_def by_userIds_def truthy_str_def
            split: prod.splits option.splits)
    qed
  qed
  with h r show "\<exists>results. results \<noteq> []
           \<and> fst (handler e w req) =
               \<lparr>status = 200, headers = json_headers,
                response_body = ResultBody True (summary results) results\<rparr>"
    by (auto simp: handler_def try_block_def)
next
  assume h: "http_method req \<noteq> ''OPTIONS'' \<and> \<not> (\<exists>r. json_body req = Resolves r \<and> has_recipient r)"
  show "\<exists>msg. handler e w req =
           (\<lparr>status = 500, headers = json_headers, response_body = ErrorBody False msg\<rparr>, w)"
  proof (cases "json_body req")
    case (Rejects msg)
    with h show ?thesis by (simp add: handler_def try_block_def)
  next
    case (Resolves r)
    with h have "\<not> has_recipient r" by simp
    then have "resolve_recipients e w r = (Inl no_recipient, w)"
      by (auto simp: resolve_recipients_def by_userIds_def has_recipient_def truthy_str_def
        split: option.splits)
    with h Resolves show ?thesis by (simp add: handler_def try_block_def)
  qed
qed

theorem handler_responses_witness:
  "http_method options_request = ''OPTIONS''
   \<and> handler ex_env ex_world options_request =
       (\<lparr>status = 200, headers = corsHeaders, response_body = NullBody\<rparr>, ex_world)
   \<and> http_method (post stranger_request) \<noteq> ''OPTIONS''
   \<and> json_body (post stranger_request) = Resolves stranger_request
   \<and> has_recipient stranger_request
   \<and> status (fst (handler ex_env ex_world (post stranger_request))) = 200
   \<and> http_method (post ex_request) \<noteq> ''OPTIONS''
   \<and> json_body (post ex_request) = Resolves ex_request
   \<and> \<not> has_recipient ex_request
   \<and> status (fst (handler ex_env ex_world (post ex_request))) = 500"
proof -
  have a: "http_method options_request = ''OPTIONS''"
    by (simp add: options_request_def)
  have b: "http_method (post r) \<noteq> ''OPTIONS'' \<and> json_body (post r) = Resolves r" for r
    by (simp add: post_def)
  have c: "has_recipient stranger_request"
    by (simp add: has_recipient_def truthy_str_def stranger_request_def)
  have d: "\<not> has_recipient ex_request"
    by (simp add: has_recipient_def truthy_str_def ex_request_def)
  from a handler_responses [of options_request ex_env ex_world]
  have 1: "handler ex_env ex_world options_request =
       (\<lparr>status = 200, headers = corsHeaders, response_body = NullBody\<rparr>, ex_world)"
    by blast
  from b [of stranger_request] c handler_responses [of "post stranger_request" ex_env ex_world]
  have "\<exists>results. fst (handler ex_env ex_world (post stranger_request)) =
               \<lparr>status = 200, headers = json_headers,
                response_body = ResultBody True (summary results) results\<rparr>"
    by blast
  then have 2: "status (fst (handler ex_env ex_world (post stranger_request))) = 200"
    by auto
  from b [of ex_request] d handler_responses [of "post ex_request" ex_env ex_world]
  have "\<exists>msg. handler ex_env ex_world (post ex_request) =
           (\<lparr>status = 500, headers = json_headers, response_body = ErrorBody False msg\<rparr>, ex_world)"
    by (metis reply.inject)
  then have 3: "status (fst (handler ex_env ex_world (post ex_request))) = 500"
    by auto
  from a b [of stranger_request] b [of ex_request] c d 1 2 3 show ?thesis by blast
qed

text \<open>
  C9, as stated, fails: a request carrying both a topic and a user id is processed as a
  valid request. It is answered with status 200 after a broadcast (a query without user
  filter and a POST to the registered token of another user).
\<close>

theorem two_shapes_processed:
  "topic two_shapes_request = Some ''news'' \<and> userId two_shapes_request = Some ''u2''
   \<and> status (fst (handler ex_env ex_world (post two_shapes_request))) = 200
   \<and> calls (snd (handler ex_env ex_world (post two_shapes_request))) =
       [Select None, Post (build_message [''ExponentPushToken[a]''] two_shapes_request)]"
  by (simp add: two_shapes_request_def ex_request_def post_def handler_def try_block_def
      resolve_recipients_def truthy_str_def sendToAllUsers_def broadcast_tokens_def
      ex_world_def ex_token_def like_expo_def issue_def ex_env_def ex_replies_def
      sendExpoNotification_def Let_def)

text \<open>
  C9, amended. Every request processed past validation has at least one recipient shape
  (a non-empty topic, a non-empty user id or a non-empty list of user ids), and a request
  with none is rejected with the validation error before any call. More than one shape
  is accepted: a non-empty topic is processed as if user id and list were absent, and
  otherwise a non-empty user id as if the list were absent.
\<close>

theorem recipient_shapes:
  "(resolve_recipients e w r = (Inr results, w') \<longrightarrow> has_recipient r)
   \<and> (\<not> has_recipient r \<longrightarrow> resolve_recipients e w r = (Inl no_recipient, w))
   \<and> (truthy_str (topic r) \<longrightarrow>
        resolve_recipients e w r = resolve_recipients e w (r\<lparr>userId := None, userIds := None\<rparr>))
   \<and> (\<not> truthy_str (topic r) \<and> truthy_str (userId r) \<longrightarrow>
        resolve_recipients e w r = resolve_recipients e w (r\<lparr>userIds := None\<rparr>))"
proof (intro conjI impI)
  assume "resolve_recipients e w r = (Inr results, w')"
  then show "has_recipient r"
    by (auto simp: resolve_recipients_def by_userIds_def has_recipient_def truthy_str_def
        split: if_splits option.splits prod.splits)
next
  assume "\<not> has_recipient r"
  then show "resolve_recipients e w r = (Inl no_recipient, w)"
    by (auto simp: resolve_recipients_def by_userIds_def has_recipient_def truthy_str_def
        split: option.splits)
next
  assume "truthy_str (topic r)"
  then show "resolve_recipients e w r = resolve_recipients e w (r\<lparr>userId := None, userIds := None\<rparr>)"
    by (simp add: resolve_recipients_def sendToAllUsers_recipient_free)
next
  assume "\<not> truthy_str (topic r) \<and> truthy_str (userId r)"
  then show "resolve_recipients e w r = resolve_recipients e w (r\<lparr>userIds := None\<rparr>)"
    by (auto simp: resolve_recipients_def truthy_str_def sendToUser_userIds_free
        split: option.splits)
qed

theorem recipient_shapes_witness:
  "\<not> has_recipient ex_request
   \<and> resolve_recipients ex_env ex_world ex_request = (Inl no_recipient, ex_world)
   \<and> truthy_str (topic two_shapes_request)
   \<and> resolve_recipients ex_env ex_world two_shapes_request =
       resolve_recipients ex_env ex_world (two_shapes_request\<lparr>userId := None, userIds := None\<rparr>)
   \<and> \<not> truthy_str (topic either_user_request) \<and> truthy_str (userId either_user_request)
   \<and> resolve_recipients ex_env ex_world either_user_request =
       resolve_recipients ex_env ex_world (either_user_request\<lparr>userIds := None\<rparr>)"
proof -
  have a: "\<not> has_recipient ex_request"
    by (simp add: has_recipient_def truthy_str_def ex_request_def)
  have b: "truthy_str (topic two_shapes_request)"
    by (simp add: truthy_str_def two_shapes_request_def)
  have c: "\<not> truthy_str (topic either_user_request) \<and> truthy_str (userId either_user_request)"
    by (simp add: truthy_str_def either_user_request_def ex_request_def)
  note th = recipient_shapes [of ex_env ex_world _ "[]" ex_world]
  from a th [of ex_request]
  have 1: "resolve_recipients ex_env ex_world ex_request = (Inl no_recipient, ex_world)"
    by blast
  from b th [of two_shapes_request]
  have 2: "resolve_recipients ex_env ex_world two_shapes_request =
       resolve_recipients ex_env ex_world (two_shapes_request\<lparr>userId := None, userIds := None\<rparr>)"
    by blast
  from c th [of either_user_request]
  have 3: "resolve_recipients ex_env ex_world either_user_request =
       resolve_recipients ex_env ex_world (either_user_request\<lparr>userIds := None\<rparr>)"
    by blast
  from a b c 1 2 3 show ?thesis by blast
qed

subsection \<open>The listener's request\<close>

lemma as_request_invoke_body:
  "as_request (invoke_body uid n) =
     Some \<lparr>userId = None, userIds = None, topic = None, title = n_title n, body = n_message n,
           data = Some (spread [(''notification_id'', n_id n), (''type'', JStr (n_type n))]
                          (case n_data n of None \<Rightarrow> [] | Some d \<Rightarrow> d)),
           priority = None, sound = None, badge = None\<rparr>"
  by (simp add: as_request_def invoke_body_def str_prop_def strs_prop_def obj_prop_def
      sound_prop_def num_prop_def)

lemma listener_invocations_rejected:
  assumes "n_type n \<in> set pushNotificationTypes"
  shows "setupNotificationListeners (Some uid) n = Some (''send-expo-notification'', invoke_body uid n)"
    and "invoke e w (invoke_body uid n) =
           Some (\<lparr>status = 500, headers = json_headers,
                  response_body = ErrorBody False no_recipient\<rparr>, w)"
  using assms
  by (simp_all add: setupNotificationListeners_def on_insert_def invoke_def as_request_invoke_body
      handler_def try_block_def resolve_recipients_def by_userIds_def truthy_str_def)

lemma listener_ignores_other_types:
  "n_type n \<notin> set pushNotificationTypes \<Longrightarrow> setupNotificationListeners user n = None"
  by (simp add: setupNotificationListeners_def on_insert_def split: option.split)

text \<open>
  C6. The code departs from the claim. For the insertion of a notification of type
  \<^verbatim>\<open>like\<close> for the signed-in user \<^verbatim>\<open>u1\<close>, the listener does invoke the function, with
  the event's title, message, type and payload, but it names the recipient under the key
  \<^verbatim>\<open>user_id\<close>. The handler reads \<^verbatim>\<open>userId\<close>: the body read as a request has no recipient,
  and the handler answers with the validation failure without any call, although a token
  is registered for \<^verbatim>\<open>u1\<close>. A notification of the type \<^verbatim>\<open>test\<close>, which is not on the
  list, leads to no invocation, as the claim says.
\<close>

theorem listener_request_not_recognised:
  "setupNotificationListeners (Some ''u1'') like_notification =
     Some (''send-expo-notification'',
           [(''user_id'', JStr ''u1''),
            (''title'', JStr ''New like''),
            (''body'', JStr ''Someone liked your post''),
            (''notification_type'', JStr ''like''),
            (''data'', JObj [(''notification_id'', JStr ''n1''), (''type'', JStr ''like'')])])
   \<and> map_option userId (as_request (invoke_body ''u1'' like_notification)) = Some None
   \<and> invoke ex_env ex_world (invoke_body ''u1'' like_notification) =
       Some (\<lparr>status = 500, headers = json_headers,
              response_body = ErrorBody False no_recipient\<rparr>, ex_world)
   \<and> setupNotificationListeners (Some ''u1'') test_notification = None"
  by (simp add: setupNotificationListeners_def on_insert_def pushNotificationTypes_def
      like_notification_def test_notification_def invoke_body_def spread_def invoke_def
      as_request_def
      str_prop_def strs_prop_def obj_prop_def sound_prop_def num_prop_def
      handler_def try_block_def resolve_recipients_def by_userIds_def truthy_str_def)

subsection \<open>Registration\<close>

lemma set_keys_upsert: "set (map row_key (upsert r rows)) = insert (row_key r) (set (map row_key rows))"
  by (induction rows) auto

lemma distinct_keys_upsert:
  "distinct (map row_key rows) \<Longrightarrow> distinct (map row_key (upsert r rows))"
proof (induction rows)
  case Nil
  then show ?case by simp
next
  case (Cons x xs)
  show ?case
  proof (cases "row_key x = row_key r")
    case True
    with Cons.prems show ?thesis by simp
  next
    case False
    have "row_key x \<notin> set (map row_key (upsert r xs))"
      using False Cons.prems unfolding set_keys_upsert by auto
    with False Cons show ?thesis by simp
  qed
qed


lemma requestPermissions_frame [simp]:
  "isInitialized (snd (requestPermissions d s)) = isInitialized s"
  "expoPushToken (snd (requestPermissions d s)) = expoPushToken s"
  "token_store (snd (requestPermissions d s)) = token_store s"
  by (simp_all add: requestPermissions_def called_def Let_def split: reply.splits)

lemma requestPermissions_stable:
  "fst (requestPermissions d s) = fst (requestPermissions d s0)"
  by (simp add: requestPermissions_def Let_def split: reply.splits)

lemma getExpoPushToken_frame [simp]:
  "isInitialized (snd (getExpoPushToken d s)) = isInitialized s"
  "expoPushToken (snd (getExpoPushToken d s)) = expoPushToken s"
  "token_store (snd (getExpoPushToken d s)) = token_store s"
  by (simp_all add: getExpoPushToken_def called_def Let_def split: reply.splits option.splits)

lemma getExpoPushToken_stable:
  "fst (getExpoPushToken d s) = fst (getExpoPushToken d s0)"
  by (simp add: getExpoPushToken_def Let_def split: reply.splits option.splits)

lemma saveTokenToDatabase_frame [simp]:
  "isInitialized (snd (saveTokenToDatabase d t uid s)) = isInitialized s"
  "expoPushToken (snd (saveTokenToDatabase d t uid s)) = expoPushToken s"
  by (simp_all add: saveTokenToDatabase_def called_def Let_def split: upsert_reply.splits)

lemma saveTokenToDatabase_distinct:
  "distinct (map row_key (token_store s)) \<Longrightarrow>
     distinct (map row_key (token_store (snd (saveTokenToDatabase d t uid s))))"
  by (simp add: saveTokenToDatabase_def called_def Let_def distinct_keys_upsert
      split: upsert_reply.splits)

lemma register_token_frame [simp]:
  "isInitialized (snd (register_token d t s)) = isInitialized s"
  "expoPushToken (snd (register_token d t s)) = expoPushToken s"
  by (simp_all add: register_token_def setupListeners_def called_def Let_def case_prod_beta
      split: reply.splits option.splits)

lemma register_token_distinct:
  "distinct (map row_key (token_store s)) \<Longrightarrow>
     distinct (map row_key (token_store (snd (register_token d t s))))"
  using saveTokenToDatabase_distinct [of "called GetUser s" d t]
  by (simp add: register_token_def setupListeners_def called_def Let_def case_prod_beta
      split: reply.splits option.splits)

text \<open>\<open>initialize\<close> written with projections.\<close>

lemma initialize_unfold:
  "initialize d s =
     (if isInitialized s then (True, s)
      else if \<not> isDevice d then (False, s)
      else if \<not> fst (requestPermissions d s) then (False, snd (requestPermissions d s))
      else
        (case fst (getExpoPushToken d (snd (requestPermissions d s))) of
           None \<Rightarrow> (False, snd (getExpoPushToken d (snd (requestPermissions d s))))
         | Some t \<Rightarrow>
             if t = [] then (False, snd (getExpoPushToken d (snd (requestPermissions d s))))
             else register_token d t
                    ((snd (getExpoPushToken d (snd (requestPermissions d s))))
                       \<lparr>expoPushToken := Some t, isInitialized := True\<rparr>)))"
  by (simp add: initialize_def split: prod.split option.split)

lemma initialize_distinct:
  assumes "distinct (map row_key (token_store s))"
  shows "distinct (map row_key (token_store (snd (initialize d s))))"
  using assms
    register_token_distinct [of "(snd (getExpoPushToken d (snd (requestPermissions d s))))
                       \<lparr>expoPushToken := Some t, isInitialized := True\<rparr>" d t for t]
  by (simp add: initialize_unfold split: option.split)

lemma initialize_success_sets_flag:
  "fst (initialize d s) \<Longrightarrow> isInitialized (snd (initialize d s))"
  by (simp add: initialize_unfold split: option.splits if_splits)

text \<open>
  A call that leaves the flag unset has failed before the token was stored, and the next
  call fails at the same step.
\<close>

lemma initialize_unset_again:
  assumes unset: "\<not> isInitialized (snd (initialize d s))"
  shows "\<not> fst (initialize d s)
       \<and> expoPushToken (snd (initialize d s)) = expoPushToken s
       \<and> token_store (snd (initialize d s)) = token_store s
       \<and> \<not> fst (initialize d (snd (initialize d s)))
       \<and> expoPushToken (snd (initialize d (snd (initialize d s)))) = expoPushToken s
       \<and> token_store (snd (initialize d (snd (initialize d s)))) = token_store s"
proof -
  from unset have uninit: "\<not> isInitialized s"
    by (auto simp: initialize_unfold split: if_splits)
  consider (nodev) "\<not> isDevice d"
    | (noperm) "isDevice d" "\<not> fst (requestPermissions d s)"
    | (notoken) "isDevice d" "fst (requestPermissions d s)"
        "\<not> truthy_str (fst (getExpoPushToken d (snd (requestPermissions d s))))"
    | (stored) "isDevice d" "fst (requestPermissions d s)"
        "truthy_str (fst (getExpoPushToken d (snd (requestPermissions d s))))"
    by blast
  then show ?thesis
  proof cases
    case nodev
    with uninit show ?thesis by (simp add: initialize_unfold)
  next
    case noperm
    with uninit have first: "initialize d s = (False, snd (requestPermissions d s))"
      by (simp add: initialize_unfold)
    from noperm requestPermissions_stable [of d "snd (requestPermissions d s)" s]
    have "\<not> fst (requestPermissions d (snd (requestPermissions d s)))" by simp
    with noperm uninit
    have "initialize d (snd (requestPermissions d s)) =
            (False, snd (requestPermissions d (snd (requestPermissions d s))))"
      by (simp add: initialize_unfold)
    with first show ?thesis by simp
  next
    case notoken
    let ?s1 = "snd (requestPermissions d s)"
    let ?s2 = "snd (getExpoPushToken d ?s1)"
    from notoken uninit have first: "initialize d s = (False, ?s2)"
      by (simp add: initialize_unfold truthy_str_def split: option.splits)
    from notoken requestPermissions_stable [of d ?s2 s]
    have p: "fst (requestPermissions d ?s2)" by simp
    from notoken getExpoPushToken_stable [of d "snd (requestPermissions d ?s2)" ?s1]
    have "\<not> truthy_str (fst (getExpoPushToken d (snd (requestPermissions d ?s2))))" by simp
    with notoken uninit p
    have "initialize d ?s2 = (False, snd (getExpoPushToken d (snd (requestPermissions d ?s2))))"
      by (simp add: initialize_unfold truthy_str_def split: option.splits)
    with first show ?thesis by simp
  next
    case stored
    with uninit have "isInitialized (snd (initialize d s))"
      by (simp add: initialize_unfold truthy_str_def split: option.splits)
    with unset show ?thesis by simp
  qed
qed

lemma initialize_success_noop:
  "fst (initialize d s) \<Longrightarrow> initialize d (snd (initialize d s)) = (True, snd (initialize d s))"
  using initialize_success_sets_flag [of d s] by (simp add: initialize_unfold [of d "snd (initialize d s)"])

text \<open>The calls of the two SDK steps depend on the answers only, not on the client.\<close>

lemma requestPermissions_calls:
  "\<exists>cs. cs \<noteq> [] \<and> (\<forall>s. sdk_calls (snd (requestPermissions d s)) = sdk_calls s @ cs)"
proof (cases "getPermissionsAsync d")
  case (Rejects msg)
  then show ?thesis
    by (intro exI [of _ "[GetPermissions]"]) (simp add: requestPermissions_def called_def)
next
  case (Resolves existingStatus)
  show ?thesis
  proof (cases "existingStatus = ''granted''")
    case True
    with Resolves show ?thesis
      by (intro exI [of _ "[GetPermissions]"]) (simp add: requestPermissions_def called_def)
  next
    case False
    with Resolves show ?thesis
      by (intro exI [of _ "[GetPermissions, RequestPermissions]"])
         (simp add: requestPermissions_def called_def Let_def split: reply.split)
  qed
qed

lemma getExpoPushToken_calls:
  "\<exists>cs. \<forall>s. sdk_calls (snd (getExpoPushToken d s)) = sdk_calls s @ cs"
proof (cases "truthy_str (projectId d)")
  case False
  then show ?thesis
    by (intro exI [of _ "[]"])
       (auto simp: getExpoPushToken_def truthy_str_def split: option.splits)
next
  case True
  then obtain p where "projectId d = Some p" "p \<noteq> []"
    by (auto simp: truthy_str_def split: option.splits)
  then show ?thesis
    by (intro exI [of _ "[GetExpoPushToken p]"])
       (simp add: getExpoPushToken_def called_def Let_def split: reply.split)
qed

text \<open>
  A call that leaves the flag unset does nothing on a device that is not physical, and
  otherwise makes calls that the next call makes again.
\<close>

lemma initialize_unset_calls:
  assumes unset: "\<not> isInitialized (snd (initialize d s))"
  shows "\<exists>cs. sdk_calls (snd (initialize d s)) = sdk_calls s @ cs
            \<and> sdk_calls (snd (initialize d (snd (initialize d s)))) =
                sdk_calls (snd (initialize d s)) @ cs
            \<and> (cs = []) = (\<not> isDevice d)"
proof -
  from unset have uninit: "\<not> isInitialized s"
    by (auto simp: initialize_unfold split: if_splits)
  from requestPermissions_calls [of d] obtain pcs where
    pcs: "pcs \<noteq> []" "\<And>s. sdk_calls (snd (requestPermissions d s)) = sdk_calls s @ pcs"
    by blast
  from getExpoPushToken_calls [of d] obtain tcs where
    tcs: "\<And>s. sdk_calls (snd (getExpoPushToken d s)) = sdk_calls s @ tcs"
    by blast
  consider (nodev) "\<not> isDevice d"
    | (noperm) "isDevice d" "\<not> fst (requestPermissions d s)"
    | (notoken) "isDevice d" "fst (requestPermissions d s)"
        "\<not> truthy_str (fst (getExpoPushToken d (snd (requestPermissions d s))))"
    | (stored) "isDevice d" "fst (requestPermissions d s)"
        "truthy_str (fst (getExpoPushToken d (snd (requestPermissions d s))))"
    by blast
  then show ?thesis
  proof cases
    case nodev
    with uninit show ?thesis
      by (intro exI [of _ "[]"]) (simp add: initialize_unfold)
  next
    case noperm
    with uninit have first: "initialize d s = (False, snd (requestPermissions d s))"
      by (simp add: initialize_unfold)
    from noperm requestPermissions_stable [of d "snd (requestPermissions d s)" s]
    have "\<not> fst (requestPermissions d (snd (requestPermissions d s)))" by simp
    with noperm uninit
    have second: "initialize d (snd (requestPermissions d s)) =
            (False, snd (requestPermissions d (snd (requestPermissions d s))))"
      by (simp add: initialize_unfold)
    from first second pcs noperm(1) show ?thesis
      by (intro exI [of _ pcs]) simp
  next
    case notoken
    let ?s1 = "snd (requestPermissions d s)"
    let ?s2 = "snd (getExpoPushToken d ?s1)"
    from notoken uninit have first: "initialize d s = (False, ?s2)"
      by (simp add: initialize_unfold truthy_str_def split: option.splits)
    from notoken requestPermissions_stable [of d ?s2 s]
    have p: "fst (requestPermissions d ?s2)" by simp
    from notoken getExpoPushToken_stable [of d "snd (requestPermissions d ?s2)" ?s1]
    have "\<not> truthy_str (fst (getExpoPushToken d (snd (requestPermissions d ?s2))))" by simp
    with notoken uninit p
    have second: "initialize d ?s2 =
                    (False, snd (getExpoPushToken d (snd (requestPermissions d ?s2))))"
      by (simp add: initialize_unfold truthy_str_def split: option.splits)
    from first second pcs tcs notoken(1) show ?thesis
      by (intro exI [of _ "pcs @ tcs"]) simp
  next
    case stored
    with uninit have "isInitialized (snd (initialize d s))"
      by (simp add: initialize_unfold truthy_str_def split: option.splits)
    with unset show ?thesis by simp
  qed
qed

lemma initialize_not_device:
  "\<not> isDevice d \<Longrightarrow> \<not> isInitialized s \<Longrightarrow> initialize d s = (False, s)"
  by (simp add: initialize_unfold)

text \<open>
  C7, as stated, fails: after a call that failed because permission was denied, the next
  call is not a no-op. It asks the SDK for the permission state and prompts again.
\<close>

theorem failed_initialize_runs_again:
  "initialize denied_device fresh_client =
     (False, fresh_client\<lparr>sdk_calls := [GetPermissions, RequestPermissions]\<rparr>)
   \<and> initialize denied_device (fresh_client\<lparr>sdk_calls := [GetPermissions, RequestPermissions]\<rparr>) =
     (False, fresh_client\<lparr>sdk_calls := [GetPermissions, RequestPermissions,
                                          GetPermissions, RequestPermissions]\<rparr>)"
  by (simp add: initialize_def requestPermissions_def called_def denied_device_def
      ex_device_def fresh_client_def Let_def)

text \<open>
  C7, amended. When \<^verbatim>\<open>initialize\<close> is called twice with the device, the SDK and the backend
  answering alike, the second call leaves the token and the Token Store as the first call
  left them, and a store without two rows of the same (user, platform, token) key stays
  so. A call after a successful call is a no-op that returns true. After a failed call
  that left the initialized flag unset the next call fails again: on a physical device
  it is not a no-op but makes the SDK calls of the failed call once more, and on a device
  that is not physical neither call makes a call and the second changes nothing.
\<close>

theorem initialize_idempotent:
  assumes "initialize d s = (r1, s1)" and "initialize d s1 = (r2, s2)"
  shows "getToken s2 = getToken s1
       \<and> token_store s2 = token_store s1
       \<and> (distinct (map row_key (token_store s)) \<longrightarrow> distinct (map row_key (token_store s2)))
       \<and> (r1 \<longrightarrow> r2 \<and> s2 = s1)
       \<and> (\<not> isInitialized s1 \<longrightarrow>
            \<not> r1 \<and> \<not> r2
            \<and> (\<exists>cs. sdk_calls s1 = sdk_calls s @ cs \<and> sdk_calls s2 = sdk_calls s1 @ cs
                     \<and> (cs = []) = (\<not> isDevice d))
            \<and> (\<not> isDevice d \<longrightarrow> s2 = s1))"
proof -
  have noop: "r1 \<longrightarrow> r2 \<and> s2 = s1"
    using initialize_success_noop [of d s] assms by simp
  have same: "expoPushToken s2 = expoPushToken s1 \<and> token_store s2 = token_store s1"
  proof (cases "isInitialized s1")
    case True
    with assms(2) show ?thesis by (simp add: initialize_unfold)
  next
    case False
    with initialize_unset_again [of d s] assms show ?thesis by simp
  qed
  have keys: "distinct (map row_key (token_store s)) \<longrightarrow> distinct (map row_key (token_store s1))"
    using initialize_distinct [of s d] assms(1) by simp
  have again: "\<not> isInitialized s1 \<longrightarrow>
            \<not> r1 \<and> \<not> r2
            \<and> (\<exists>cs. sdk_calls s1 = sdk_calls s @ cs \<and> sdk_calls s2 = sdk_calls s1 @ cs
                     \<and> (cs = []) = (\<not> isDevice d))
            \<and> (\<not> isDevice d \<longrightarrow> s2 = s1)"
  proof
    assume unset: "\<not> isInitialized s1"
    from unset initialize_unset_again [of d s] assms have fails: "\<not> r1" "\<not> r2" by simp_all
    from unset initialize_unset_calls [of d s] assms
    have calls: "\<exists>cs. sdk_calls s1 = sdk_calls s @ cs \<and> sdk_calls s2 = sdk_calls s1 @ cs
                     \<and> (cs = []) = (\<not> isDevice d)"
      by simp
    from unset initialize_not_device [of d s1] assms(2)
    have "\<not> isDevice d \<longrightarrow> s2 = s1" by auto
    with fails calls show "\<not> r1 \<and> \<not> r2
            \<and> (\<exists>cs. sdk_calls s1 = sdk_calls s @ cs \<and> sdk_calls s2 = sdk_calls s1 @ cs
                     \<and> (cs = []) = (\<not> isDevice d))
            \<and> (\<not> isDevice d \<longrightarrow> s2 = s1)"
      by blast
  qed
  from same keys noop again show ?thesis by (simp add: getToken_def)
qed

theorem initialize_idempotent_witness:
  "initialize ex_device fresh_client = (True, registered_client)
   \<and> initialize ex_device registered_client = (True, registered_client)
   \<and> getToken registered_client = Some ''ExponentPushToken[a]''
   \<and> token_store registered_client = [registered_row]
   \<and> distinct (map row_key (token_store fresh_client))
   \<and> isDevice denied_device
   \<and> \<not> isInitialized (snd (initialize denied_device fresh_client))
   \<and> \<not> fst (initialize denied_device (snd (initialize denied_device fresh_client)))
   \<and> sdk_calls (snd (initialize denied_device fresh_client)) =
       [GetPermissions, RequestPermissions]
   \<and> sdk_calls (snd (initialize denied_device (snd (initialize denied_device fresh_client)))) =
       [GetPermissions, RequestPermissions, GetPermissions, RequestPermissions]
   \<and> \<not> isDevice (ex_device\<lparr>isDevice := False\<rparr>)
   \<and> initialize (ex_device\<lparr>isDevice := False\<rparr>)
        (snd (initialize (ex_device\<lparr>isDevice := False\<rparr>) fresh_client)) = (False, fresh_client)"
proof -
  have a: "initialize ex_device fresh_client = (True, registered_client)"
    by (simp add: initialize_def requestPermissions_def getExpoPushToken_def register_token_def
        saveTokenToDatabase_def setupListeners_def called_def ex_device_def fresh_client_def
        registered_client_def registered_row_def Let_def)
  obtain r2 s2 where b0: "initialize ex_device registered_client = (r2, s2)"
    by (cases "initialize ex_device registered_client")
  from initialize_idempotent [OF a b0] have "r2 \<and> s2 = registered_client" by simp
  with b0 have b: "initialize ex_device registered_client = (True, registered_client)" by simp
  have c: "getToken registered_client = Some ''ExponentPushToken[a]''"
    "token_store registered_client = [registered_row]"
    "distinct (map row_key (token_store fresh_client))"
    by (simp_all add: registered_client_def getToken_def fresh_client_def)
  have dev: "isDevice denied_device" "\<not> isDevice (ex_device\<lparr>isDevice := False\<rparr>)"
    by (simp_all add: denied_device_def ex_device_def)
  have first: "initialize denied_device fresh_client =
                 (False, fresh_client\<lparr>sdk_calls := [GetPermissions, RequestPermissions]\<rparr>)"
    by (simp add: initialize_def requestPermissions_def called_def denied_device_def
        ex_device_def fresh_client_def Let_def)
  then have unset: "\<not> isInitialized (snd (initialize denied_device fresh_client))"
    and c1: "sdk_calls (snd (initialize denied_device fresh_client)) =
               [GetPermissions, RequestPermissions]"
    by (simp_all add: fresh_client_def)
  from initialize_idempotent [OF prod.collapse [symmetric] prod.collapse [symmetric],
      of denied_device fresh_client] unset
  obtain cs where
    again: "\<not> fst (initialize denied_device (snd (initialize denied_device fresh_client)))"
      "sdk_calls (snd (initialize denied_device fresh_client)) = sdk_calls fresh_client @ cs"
      "sdk_calls (snd (initialize denied_device (snd (initialize denied_device fresh_client)))) =
         sdk_calls (snd (initialize denied_device fresh_client)) @ cs"
    by auto
  from again(2) c1 have "cs = [GetPermissions, RequestPermissions]"
    by (simp add: fresh_client_def)
  with again(3) c1
  have c2: "sdk_calls (snd (initialize denied_device (snd (initialize denied_device fresh_client)))) =
       [GetPermissions, RequestPermissions, GetPermissions, RequestPermissions]"
    by simp
  have nd: "initialize (ex_device\<lparr>isDevice := False\<rparr>) fresh_client = (False, fresh_client)"
    by (simp add: initialize_def fresh_client_def)
  have "\<not> isInitialized fresh_client" by (simp add: fresh_client_def)
  with initialize_idempotent [OF nd prod.collapse [symmetric]] dev(2)
  have "snd (initialize (ex_device\<lparr>isDevice := False\<rparr>) fresh_client) = fresh_client
        \<and> \<not> fst (initialize (ex_device\<lparr>isDevice := False\<rparr>) fresh_client)"
    by simp
  with nd have nd2: "initialize (ex_device\<lparr>isDevice := False\<rparr>)
        (snd (initialize (ex_device\<lparr>isDevice := False\<rparr>) fresh_client)) = (False, fresh_client)"
    by simp
  from a b c dev unset again(1) c1 c2 nd2 show ?thesis by simp
qed

subsection \<open>The calls of a per-user send\<close>

lemma inserts_append: "inserts (xs @ ys) = inserts xs @ inserts ys"
  by (induction xs rule: inserts.induct) simp_all

lemma inserts_map_Insert: "inserts (map Insert rows) = rows"
  by (induction rows) simp_all

lemma selects_append: "selects (xs @ ys) = selects xs @ selects ys"
  by (induction xs rule: selects.induct) simp_all

lemma selects_map_Insert: "selects (map Insert rows) = []"
  by (induction rows) simp_all

lemma successful_sends_Nil: "successful_sends e n [] = 0"
  by (simp add: successful_sends_def)

lemma successful_sends_Cons:
  "successful_sends e n (c # cs) =
     (if is_post c \<and> reply_success (fetch_reply e n) then 1 else 0) + successful_sends e (Suc n) cs"
  by (simp add: successful_sends_def)

lemma successful_sends_append:
  "successful_sends e n (xs @ ys) = successful_sends e n xs + successful_sends e (n + length xs) ys"
  by (induction xs arbitrary: n) (simp_all add: successful_sends_Nil successful_sends_Cons)

lemma successful_sends_map_Insert: "successful_sends e n (map Insert rows) = 0"
  by (induction rows arbitrary: n) (simp_all add: successful_sends_Nil successful_sends_Cons)

text \<open>What the tracking loop does to the call log and to the Delivery Log.\<close>

lemma track_deliveries_effect:
  "\<exists>rows. calls (track_deliveries e uid r res ts w) = calls w @ map Insert rows
     \<and> map d_platform rows = map platform ts
     \<and> (\<forall>d \<in> set rows. d_user_id d = uid
                          \<and> d_status d = (if success res then ''sent'' else ''failed''))
     \<and> prefix (notification_deliveries w)
          (notification_deliveries (track_deliveries e uid r res ts w))
     \<and> ((\<forall>n. insert_accepted e n) \<longrightarrow>
          notification_deliveries (track_deliveries e uid r res ts w) =
            notification_deliveries w @ rows)
     \<and> fcm_tokens (track_deliveries e uid r res ts w) = fcm_tokens w"
proof (induction ts arbitrary: w)
  case Nil
  show ?case by (rule exI [of _ "[]"]) simp
next
  case (Cons t ts)
  let ?row = "delivery_record uid r res t (clock e (length (calls w)))"
  let ?w1 = "insert_delivery e uid r res t w"
  have c1: "calls ?w1 = calls w @ [Insert ?row]"
    by (simp add: insert_delivery_def Let_def)
  have d1: "prefix (notification_deliveries w) (notification_deliveries ?w1)"
    by (simp add: insert_delivery_def Let_def)
  have a1: "(\<forall>n. insert_accepted e n) \<longrightarrow>
              notification_deliveries ?w1 = notification_deliveries w @ [?row]"
    by (simp add: insert_delivery_def Let_def)
  have f1: "fcm_tokens ?w1 = fcm_tokens w"
    by (simp add: insert_delivery_def Let_def)
  from Cons.IH [of ?w1] obtain rows where
    rows: "calls (track_deliveries e uid r res ts ?w1) = calls ?w1 @ map Insert rows"
      "map d_platform rows = map platform ts"
      "\<forall>d \<in> set rows. d_user_id d = uid
                          \<and> d_status d = (if success res then ''sent'' else ''failed'')"
      "prefix (notification_deliveries ?w1)
          (notification_deliveries (track_deliveries e uid r res ts ?w1))"
      "(\<forall>n. insert_accepted e n) \<longrightarrow>
          notification_deliveries (track_deliveries e uid r res ts ?w1) =
            notification_deliveries ?w1 @ rows"
      "fcm_tokens (track_deliveries e uid r res ts ?w1) = fcm_tokens ?w1"
    by blast
  have row: "d_platform ?row = platform t" "d_user_id ?row = uid"
    "d_status ?row = (if success res then ''sent'' else ''failed'')"
    by (simp_all add: delivery_record_def)
  show ?case
  proof (intro exI [of _ "?row # rows"] conjI)
    show "calls (track_deliveries e uid r res (t # ts) w) = calls w @ map Insert (?row # rows)"
      using rows(1) c1 by simp
    show "map d_platform (?row # rows) = map platform (t # ts)"
      using rows(2) row(1) by simp
    show "\<forall>d \<in> set (?row # rows). d_user_id d = uid
                          \<and> d_status d = (if success res then ''sent'' else ''failed'')"
      using rows(3) row(2,3) by simp
    show "prefix (notification_deliveries w)
          (notification_deliveries (track_deliveries e uid r res (t # ts) w))"
      using d1 rows(4) by (auto intro: prefix_order.trans)
    show "(\<forall>n. insert_accepted e n) \<longrightarrow>
          notification_deliveries (track_deliveries e uid r res (t # ts) w) =
            notification_deliveries w @ ?row # rows"
      using a1 rows(5) by simp
    show "fcm_tokens (track_deliveries e uid r res (t # ts) w) = fcm_tokens w"
      using f1 rows(6) by simp
  qed
qed

lemma sendExpoNotification_effect:
  "sendExpoNotification e w toks r =
     (fst (sendExpoNotification e w toks r), issue (Post (build_message toks r)) w)"
  "success (fst (sendExpoNotification e w toks r)) = reply_success (fetch_reply e (length (calls w)))"
  by (simp_all add: sendExpoNotification_def reply_success_def interpret_response_def Let_def
      list_ex_iff filter_empty_conv split: fetch_reply.splits expo_data.splits)

text \<open>The rows that the query of \<open>sendToUser\<close> returns.\<close>

lemma sendToUser_effect:
  assumes "sendToUser e w uid r = (res, w')"
  shows "\<exists>posts rows.
       calls w' = calls w @ Select (Some uid) # posts @ map Insert rows
     \<and> successful_sends e (Suc (length (calls w))) posts = (if success res then 1 else 0)
     \<and> selects posts = [] \<and> inserts posts = []
     \<and> map d_platform rows =
         map platform (case select_reply e (length (calls w)) of
                         SelectData \<Rightarrow> user_tokens uid w | _ \<Rightarrow> [])
     \<and> (\<forall>d \<in> set rows. d_user_id d = uid
                          \<and> d_status d = (if success res then ''sent'' else ''failed''))
     \<and> prefix (notification_deliveries w) (notification_deliveries w')
     \<and> ((\<forall>n. insert_accepted e n) \<longrightarrow>
          notification_deliveries w' = notification_deliveries w @ rows)
     \<and> fcm_tokens w' = fcm_tokens w"
proof (cases "select_reply e (length (calls w)) = SelectData \<and> user_tokens uid w \<noteq> []")
  case False
  with assms have "w' = issue (Select (Some uid)) w" "\<not> success res"
    by (auto simp: sendToUser_def Let_def split: select_reply.splits if_splits)
  moreover from False have "(case select_reply e (length (calls w)) of
                         SelectData \<Rightarrow> user_tokens uid w | _ \<Rightarrow> []) = []"
    by (auto split: select_reply.splits)
  ultimately show ?thesis
    by (intro exI [of _ "[]"]) (simp add: issue_def successful_sends_Nil)
next
  case True
  let ?w1 = "issue (Select (Some uid)) w"
  let ?toks = "user_tokens uid w"
  let ?m = "build_message (map token ?toks) r"
  let ?w2 = "issue (Post ?m) ?w1"
  from True assms sendExpoNotification_effect(1) [of e ?w1 "map token ?toks" r]
  have res: "res = fst (sendExpoNotification e ?w1 (map token ?toks) r)"
    and w': "w' = track_deliveries e uid r res ?toks ?w2"
    by (auto simp: sendToUser_def Let_def split: prod.splits)
  from res sendExpoNotification_effect(2) [of e ?w1 "map token ?toks" r]
  have succ: "success res = reply_success (fetch_reply e (Suc (length (calls w))))"
    by (simp add: issue_def)
  from track_deliveries_effect [of e uid r res ?toks ?w2] w' obtain rows where
    rows: "calls w' = calls ?w2 @ map Insert rows"
      "map d_platform rows = map platform ?toks"
      "\<forall>d \<in> set rows. d_user_id d = uid
                          \<and> d_status d = (if success res then ''sent'' else ''failed'')"
      "prefix (notification_deliveries ?w2) (notification_deliveries w')"
      "(\<forall>n. insert_accepted e n) \<longrightarrow>
          notification_deliveries w' = notification_deliveries ?w2 @ rows"
      "fcm_tokens w' = fcm_tokens ?w2"
    by blast
  show ?thesis
  proof (intro exI [of _ "[Post ?m]"] exI [of _ rows] conjI)
    show "calls w' = calls w @ Select (Some uid) # [Post ?m] @ map Insert rows"
      using rows(1) by (simp add: issue_def)
    show "successful_sends e (Suc (length (calls w))) [Post ?m] = (if success res then 1 else 0)"
      using succ by (simp add: successful_sends_Cons successful_sends_Nil)
    show "selects [Post ?m] = []" "inserts [Post ?m] = []" by simp_all
    show "map d_platform rows =
         map platform (case select_reply e (length (calls w)) of
                         SelectData \<Rightarrow> user_tokens uid w | _ \<Rightarrow> [])"
      using rows(2) True by simp
    show "\<forall>d \<in> set rows. d_user_id d = uid
                          \<and> d_status d = (if success res then ''sent'' else ''failed'')"
      using rows(3) .
    show "prefix (notification_deliveries w) (notification_deliveries w')"
      using rows(4) by (simp add: issue_def)
    show "(\<forall>n. insert_accepted e n) \<longrightarrow>
          notification_deliveries w' = notification_deliveries w @ rows"
      using rows(5) by (simp add: issue_def)
    show "fcm_tokens w' = fcm_tokens w"
      using rows(6) by (simp add: issue_def)
  qed
qed

lemma sendToAllUsers_effect:
  "inserts (calls (snd (sendToAllUsers e w r))) = inserts (calls w)"
  "notification_deliveries (snd (sendToAllUsers e w r)) = notification_deliveries w"
  by (simp_all add: sendToAllUsers_def sendExpoNotification_def issue_def Let_def inserts_append
      split: select_reply.splits fetch_reply.splits)

lemma sendToUser_prefix:
  "prefix (notification_deliveries w) (notification_deliveries (snd (sendToUser e w uid r)))"
  using sendToUser_effect [of e w uid r "fst (sendToUser e w uid r)" "snd (sendToUser e w uid r)"]
  by auto

lemma sendToUsers_prefix:
  "prefix (notification_deliveries w) (notification_deliveries (snd (sendToUsers e w uids r)))"
proof (induction uids arbitrary: w)
  case Nil
  show ?case by simp
next
  case (Cons u us)
  from sendToUser_prefix [of w e u r] Cons [of "snd (sendToUser e w u r)"]
  show ?case by (auto simp: case_prod_beta intro: prefix_order.trans)
qed

lemma resolve_recipients_prefix:
  "prefix (notification_deliveries w) (notification_deliveries (snd (resolve_recipients e w r)))"
  using sendToUser_prefix [of w e _ r] sendToUsers_prefix [of w e _ r]
    sendToAllUsers_effect(2) [of e w r]
  by (simp add: resolve_recipients_def by_userIds_def case_prod_beta split: option.splits)

lemma handler_prefix:
  "prefix (notification_deliveries w) (notification_deliveries (snd (handler e w req)))"
proof (cases "json_body req")
  case (Rejects msg)
  then show ?thesis by (simp add: handler_def try_block_def)
next
  case (Resolves r)
  obtain out w1 where o: "resolve_recipients e w r = (out, w1)"
    by (cases "resolve_recipients e w r")
  with resolve_recipients_prefix [of w e r] have "prefix (notification_deliveries w) (notification_deliveries w1)"
    by simp
  with o Resolves show ?thesis
    by (cases out) (simp_all add: handler_def try_block_def)
qed

text \<open>
  C5. A per-user send (\<^verbatim>\<open>sendToUser\<close>, which serves both the single user id and each
  element of the list) issues exactly one Delivery Log insert per token row that its
  query returned, in the order of the rows and with the platform of each; every such row
  carries the user and the status \<^verbatim>\<open>sent\<close> or \<^verbatim>\<open>failed\<close> according to the success flag of
  the batch result alone; and when the log accepts the inserts they are exactly the rows
  appended to it. The broadcast path issues no insert and leaves the log as it was. For
  every request the log before the handler ran is a prefix of the log after: no row is
  changed or removed.
\<close>

theorem delivery_log_writes:
  assumes "sendToUser e w uid r = (res, w')"
  shows "(\<exists>rows. inserts (calls w') = inserts (calls w) @ rows
           \<and> map d_platform rows =
               map platform (case select_reply e (length (calls w)) of
                               SelectData \<Rightarrow> user_tokens uid w | _ \<Rightarrow> [])
           \<and> (\<forall>d \<in> set rows. d_user_id d = uid
                  \<and> d_status d = (if success res then ''sent'' else ''failed''))
           \<and> ((\<forall>n. insert_accepted e n) \<longrightarrow>
                  notification_deliveries w' = notification_deliveries w @ rows))
       \<and> inserts (calls (snd (sendToAllUsers e w r))) = inserts (calls w)
       \<and> notification_deliveries (snd (sendToAllUsers e w r)) = notification_deliveries w
       \<and> prefix (notification_deliveries w) (notification_deliveries (snd (handler e w req)))"
proof -
  from sendToUser_effect [OF assms] obtain posts rows where
    e: "calls w' = calls w @ Select (Some uid) # posts @ map Insert rows"
      "inserts posts = []"
      "map d_platform rows =
         map platform (case select_reply e (length (calls w)) of
                         SelectData \<Rightarrow> user_tokens uid w | _ \<Rightarrow> [])"
      "\<forall>d \<in> set rows. d_user_id d = uid
                          \<and> d_status d = (if success res then ''sent'' else ''failed'')"
      "(\<forall>n. insert_accepted e n) \<longrightarrow>
          notification_deliveries w' = notification_deliveries w @ rows"
    by blast
  from e(1,2) have "inserts (calls w') = inserts (calls w) @ rows"
    by (simp add: inserts_append inserts_map_Insert)
  with e(3,4,5) sendToAllUsers_effect [of e w r] handler_prefix [of w e req]
  show ?thesis by blast
qed

theorem delivery_log_writes_witness:
  "sendToUser ex_env ex_world ''u1'' user_request = (sent_result, sent_world)
   \<and> (\<forall>n. insert_accepted ex_env n)
   \<and> select_reply ex_env (length (calls ex_world)) = SelectData
   \<and> user_tokens ''u1'' ex_world = [ex_token]
   \<and> inserts (calls sent_world) = [sent_row]
   \<and> d_status sent_row = ''sent'' \<and> success sent_result
   \<and> notification_deliveries sent_world = notification_deliveries ex_world @ [sent_row]"
proof -
  have a: "sendToUser ex_env ex_world ''u1'' user_request = (sent_result, sent_world)"
    by (simp add: sendToUser_def user_tokens_def like_expo_def issue_def sendExpoNotification_def
        interpret_response_def is_error_def first_ticket_id_def or_default_def
        insert_delivery_def delivery_record_def notification_type_of_def
        ex_env_def ex_replies_def ex_world_def ex_token_def ok_ticket_def user_request_def
        ex_request_def sent_result_def sent_world_def sent_row_def Let_def)
  have b: "\<forall>n. insert_accepted ex_env n"
    "select_reply ex_env (length (calls ex_world)) = SelectData"
    by (simp_all add: ex_env_def ex_replies_def)
  have c: "user_tokens ''u1'' ex_world = [ex_token]"
    by (simp add: user_tokens_def ex_world_def ex_token_def like_expo_def)
  have d: "inserts (calls sent_world) = [sent_row]" "inserts (calls ex_world) = []"
    "d_status sent_row = ''sent''" "success sent_result"
    by (simp_all add: sent_world_def ex_world_def sent_row_def sent_result_def)
  from delivery_log_writes [OF a] obtain rows where
    rows: "inserts (calls sent_world) = inserts (calls ex_world) @ rows"
      "(\<forall>n. insert_accepted ex_env n) \<longrightarrow>
          notification_deliveries sent_world = notification_deliveries ex_world @ rows"
    by blast
  from rows(1) d have "rows = [sent_row]" by simp
  with rows(2) b have "notification_deliveries sent_world = notification_deliveries ex_world @ [sent_row]"
    by simp
  with a b c d show ?thesis by simp
qed

subsection \<open>The list of users\<close>

lemma successCount_Cons:
  "successCount (res # rs) = (if success res then 1 else 0) + successCount rs"
  by (simp add: successCount_def)

lemma sendToUsers_effect:
  "sendToUsers e w uids r = (results, w') \<Longrightarrow>
     \<exists>cs. calls w' = calls w @ cs \<and> selects cs = map Some uids
        \<and> successful_sends e (length (calls w)) cs = successCount results
        \<and> length results = length uids"
proof (induction uids arbitrary: w results w')
  case Nil
  then show ?case by (simp add: successful_sends_Nil successCount_def)
next
  case (Cons u us)
  obtain res w1 where u: "sendToUser e w u r = (res, w1)" by (cases "sendToUser e w u r")
  obtain rs w2 where us: "sendToUsers e w1 us r = (rs, w2)" by (cases "sendToUsers e w1 us r")
  from Cons.prems u us have out: "results = res # rs" "w' = w2" by simp_all
  from sendToUser_effect [OF u] obtain posts rows where
    one: "calls w1 = calls w @ Select (Some u) # posts @ map Insert rows"
      "successful_sends e (Suc (length (calls w))) posts = (if success res then 1 else 0)"
      "selects posts = []"
    by blast
  let ?cs1 = "Select (Some u) # posts @ map Insert rows"
  from one(2) have s1: "successful_sends e (length (calls w)) ?cs1 = (if success res then 1 else 0)"
    by (simp add: successful_sends_Cons successful_sends_append successful_sends_map_Insert)
  from one(3) have q1: "selects ?cs1 = [Some u]"
    by (simp add: selects_append selects_map_Insert)
  from Cons.IH [OF us] obtain cs2 where
    rest: "calls w2 = calls w1 @ cs2" "selects cs2 = map Some us"
      "successful_sends e (length (calls w1)) cs2 = successCount rs" "length rs = length us"
    by blast
  from one(1) have len: "length (calls w1) = length (calls w) + length ?cs1" by simp
  show ?case
  proof (intro exI [of _ "?cs1 @ cs2"] conjI)
    show "calls w' = calls w @ ?cs1 @ cs2"
      using out rest(1) one(1) by simp
    show "selects (?cs1 @ cs2) = map Some (u # us)"
      using q1 rest(2) selects_append [of ?cs1 cs2] by simp
    show "successful_sends e (length (calls w)) (?cs1 @ cs2) = successCount results"
      using s1 rest(3) len out successful_sends_append [of e "length (calls w)" ?cs1 cs2]
      by (simp add: successCount_Cons)
    show "length results = length (u # us)"
      using out rest(4) by simp
  qed
qed

lemma sendToUsers_append:
  "sendToUsers e w (us @ vs) r =
     (fst (sendToUsers e w us r) @ fst (sendToUsers e (snd (sendToUsers e w us r)) vs r),
      snd (sendToUsers e (snd (sendToUsers e w us r)) vs r))"
  by (induction us arbitrary: w) (simp_all add: case_prod_beta)

lemma sendToUser_query_error:
  "select_reply e (length (calls w)) = SelectError \<Longrightarrow>
     sendToUser e w u r = (failure ''Failed to fetch user tokens'', issue (Select (Some u)) w)"
  by (simp add: sendToUser_def)

lemma documented_reply_success:
  "documented_reply rep \<Longrightarrow> reply_success rep = has_ok_ticket rep"
proof (cases rep)
  case (Response ok result)
  assume d: "documented_reply rep"
  show ?thesis
  proof (cases "b_data result")
    case DataAbsent
    with d Response show ?thesis
      by (simp add: documented_reply_def reply_success_def has_ok_ticket_def)
  next
    case (DataArray ts)
    with d Response have ts: "ok" "ts \<noteq> []" "\<forall>t \<in> set ts. is_ok t \<or> is_error t"
      by (simp_all add: documented_reply_def list_all_iff)
    from ts(2,3) have "\<not> list_ex is_error ts \<Longrightarrow> list_ex is_ok ts"
      by (cases ts) (auto simp: list_ex_iff)
    with ts(1) DataArray Response show ?thesis
      by (auto simp: reply_success_def has_ok_ticket_def)
  next
    case (DataObject t)
    with d Response show ?thesis by (simp add: documented_reply_def)
  qed
qed (simp_all add: reply_success_def has_ok_ticket_def)

text \<open>
  C4, as stated, fails: the provider answers the send to the only listed user with a
  success status and a single rejected ticket that is not inside an array. The reply
  contains no successful ticket, yet the response reports one notification sent.
\<close>

theorem success_without_ok_ticket:
  "userIds list_request = Some [''u1'']
   \<and> \<not> has_ok_ticket single_error_reply
   \<and> response_body (fst (handler (ex_replies single_error_reply) ex_world (post list_request))) =
       ResultBody True ''Sent 1 notifications, 0 failed''
         [\<lparr>success = True, error = None, messageId = Some ''unknown'',
           tickets = DataObject error_ticket\<rparr>]
   \<and> calls (snd (handler (ex_replies single_error_reply) ex_world (post list_request))) =
       [Select (Some ''u1''), Post (build_message [''ExponentPushToken[a]''] list_request),
        Insert (delivery_record ''u1'' list_request
                  \<lparr>success = True, error = None, messageId = Some ''unknown'',
                    tickets = DataObject error_ticket\<rparr> ex_token ''2024-01-02T00:00:00.000Z'')]"
  by (simp add: list_request_def ex_request_def single_error_reply_def has_ok_ticket_def
      is_ok_def error_ticket_def ex_replies_def ex_world_def ex_token_def post_def
      handler_def try_block_def resolve_recipients_def by_userIds_def truthy_str_def
      sendToUser_def user_tokens_def like_expo_def issue_def sendExpoNotification_def
      interpret_response_def first_ticket_id_def insert_delivery_def
      summary_def successCount_def failureCount_def string_of_nat_digits Let_def)

text \<open>
  C4, amended. For every request with a non-empty list of user ids and neither topic nor
  user id, the handler answers 200 with one result per list element; its calls contain
  one Token Store query per element, in the order of the list; and the success count
  equals the number of POSTs whose reply was a success status that either carried no
  ticket array with an error ticket or carried an array with at least one ok ticket.
  When every reply of the provider is a failure status without tickets or a success
  status with a non-empty array of ok and error tickets, this is the number of POSTs
  whose reply contained at least one ok ticket. When the query for one element fails,
  its result is the failure "Failed to fetch user tokens", and the results before and
  after it are those of processing the other elements, the later ones from the world
  that differs only by the recorded query.
\<close>

theorem per_user_fanout:
  assumes "\<not> truthy_str (topic r)" and "\<not> truthy_str (userId r)"
    and "userIds r = Some uids" and "uids \<noteq> []"
    and "handler e w (post r) = (resp, w')"
  shows "\<exists>results cs.
       resp = \<lparr>status = 200, headers = json_headers,
               response_body = ResultBody True (summary results) results\<rparr>
     \<and> length results = length uids
     \<and> calls w' = calls w @ cs
     \<and> selects cs = map Some uids
     \<and> successCount results = successful_sends e (length (calls w)) cs
     \<and> ((\<forall>n. documented_reply (fetch_reply e n)) \<longrightarrow>
          successCount results =
            length (filter (\<lambda>(i, c). is_post c \<and> has_ok_ticket (fetch_reply e i))
                      (enumerate (length (calls w)) cs)))
     \<and> (\<forall>us u vs.
           uids = us @ u # vs
           \<and> select_reply e (length (calls (snd (sendToUsers e w us r)))) = SelectError \<longrightarrow>
           results =
             fst (sendToUsers e w us r) @ failure ''Failed to fetch user tokens''
               # fst (sendToUsers e (issue (Select (Some u)) (snd (sendToUsers e w us r))) vs r))"
proof -
  obtain results w1 where s: "sendToUsers e w uids r = (results, w1)"
    by (cases "sendToUsers e w uids r")
  from assms(1-4) s have "resolve_recipients e w r = (Inr results, w1)"
    by (auto simp: resolve_recipients_def by_userIds_def truthy_str_def split: option.splits)
  with assms(5) have resp: "resp = \<lparr>status = 200, headers = json_headers,
               response_body = ResultBody True (summary results) results\<rparr>" and w': "w' = w1"
    by (simp_all add: handler_def try_block_def post_def)
  from sendToUsers_effect [OF s] w' obtain cs where
    cs: "calls w' = calls w @ cs" "selects cs = map Some uids"
      "successful_sends e (length (calls w)) cs = successCount results"
      "length results = length uids"
    by blast
  have doc: "(\<forall>n. documented_reply (fetch_reply e n)) \<longrightarrow>
          successCount results =
            length (filter (\<lambda>(i, c). is_post c \<and> has_ok_ticket (fetch_reply e i))
                      (enumerate (length (calls w)) cs))"
  proof
    assume "\<forall>n. documented_reply (fetch_reply e n)"
    then have "reply_success (fetch_reply e n) = has_ok_ticket (fetch_reply e n)" for n
      by (simp add: documented_reply_success)
    with cs(3) show "successCount results =
            length (filter (\<lambda>(i, c). is_post c \<and> has_ok_ticket (fetch_reply e i))
                      (enumerate (length (calls w)) cs))"
      by (simp add: successful_sends_def)
  qed
  have iso: "\<forall>us u vs.
           uids = us @ u # vs
           \<and> select_reply e (length (calls (snd (sendToUsers e w us r)))) = SelectError \<longrightarrow>
           results =
             fst (sendToUsers e w us r) @ failure ''Failed to fetch user tokens''
               # fst (sendToUsers e (issue (Select (Some u)) (snd (sendToUsers e w us r))) vs r)"
  proof (intro allI impI)
    fix us u vs
    assume h: "uids = us @ u # vs
           \<and> select_reply e (length (calls (snd (sendToUsers e w us r)))) = SelectError"
    then have "sendToUser e (snd (sendToUsers e w us r)) u r =
                 (failure ''Failed to fetch user tokens'',
                  issue (Select (Some u)) (snd (sendToUsers e w us r)))"
      by (simp add: sendToUser_query_error)
    with h s sendToUsers_append [of e w us "u # vs" r]
    show "results =
             fst (sendToUsers e w us r) @ failure ''Failed to fetch user tokens''
               # fst (sendToUsers e (issue (Select (Some u)) (snd (sendToUsers e w us r))) vs r)"
      by (simp add: case_prod_beta)
  qed
  show ?thesis
    by (intro exI [of _ results] exI [of _ cs] conjI)
       (rule resp cs(4) cs(1) cs(2) cs(3) [symmetric] doc iso)+
qed

theorem per_user_fanout_witness:
  "\<not> truthy_str (topic two_users_request) \<and> \<not> truthy_str (userId two_users_request)
   \<and> userIds two_users_request = Some [''u2'', ''u1'']
   \<and> select_reply flaky_env (length (calls ex_world)) = SelectError
   \<and> (\<forall>n. documented_reply (fetch_reply flaky_env n))
   \<and> response_body (fst (handler flaky_env ex_world (post two_users_request))) =
       ResultBody True ''Sent 1 notifications, 1 failed''
         [failure ''Failed to fetch user tokens'', sent_result]"
proof -
  have a: "\<not> truthy_str (topic two_users_request)" "\<not> truthy_str (userId two_users_request)"
    "userIds two_users_request = Some [''u2'', ''u1'']"
    by (simp_all add: two_users_request_def ex_request_def truthy_str_def)
  have b: "select_reply flaky_env (length (calls ex_world)) = SelectError"
    by (simp add: flaky_env_def ex_world_def)
  have c: "\<forall>n. documented_reply (fetch_reply flaky_env n)"
    by (simp add: flaky_env_def ex_env_def ex_replies_def documented_reply_def is_ok_def
        ok_ticket_def)
  have rest: "fst (sendToUsers flaky_env (issue (Select (Some ''u2'')) ex_world) [''u1'']
                    two_users_request) = [sent_result]"
    by (simp add: sendToUser_def user_tokens_def like_expo_def issue_def sendExpoNotification_def
        interpret_response_def is_error_def first_ticket_id_def or_default_def
        flaky_env_def ex_env_def ex_replies_def ex_world_def ex_token_def ok_ticket_def
        sent_result_def Let_def case_prod_beta)
  from per_user_fanout [OF a(1) a(2) a(3) _ prod.collapse [symmetric], of flaky_env ex_world]
  obtain results where
    r: "fst (handler flaky_env ex_world (post two_users_request)) =
          \<lparr>status = 200, headers = json_headers,
           response_body = ResultBody True (summary results) results\<rparr>"
      "\<forall>us u vs.
           [''u2'', ''u1''] = us @ u # vs
           \<and> select_reply flaky_env
                (length (calls (snd (sendToUsers flaky_env ex_world us two_users_request))))
               = SelectError \<longrightarrow>
           results =
             fst (sendToUsers flaky_env ex_world us two_users_request)
               @ failure ''Failed to fetch user tokens''
               # fst (sendToUsers flaky_env
                       (issue (Select (Some u))
                          (snd (sendToUsers flaky_env ex_world us two_users_request)))
                       vs two_users_request)"
    by auto
  from r(2) [rule_format, of "[]" "''u2''" "[''u1'']"] b rest
  have "results = [failure ''Failed to fetch user tokens'', sent_result]" by simp
  with r(1)
  have "response_body (fst (handler flaky_env ex_world (post two_users_request))) =
       ResultBody True ''Sent 1 notifications, 1 failed''
         [failure ''Failed to fetch user tokens'', sent_result]"
    by (simp add: summary_def successCount_def failureCount_def sent_result_def
        string_of_nat_digits)
  with a b c show ?thesis by simp
qed

end
